theory Spec2Isabelle
  imports Main "HOL-Library.Sublist" "HOL-Library.AList"
begin

section \<open>Strings\<close>

text \<open>
  The pathway engine of \<^verbatim>\<open>src/tools/pathways.ts\<close> works on JavaScript strings. They are
  modelled as HOL strings (lists of 8-bit characters). Case conversion acts on the ASCII
  letters, which is what \<^verbatim>\<open>toLowerCase\<close> and \<^verbatim>\<open>toUpperCase\<close> do on such text; every keyword
  table of the source is ASCII.
\<close>

definition lower_char :: "char \<Rightarrow> char" where
  "lower_char c =
     (let n = (of_char c :: nat) in if 65 \<le> n \<and> n \<le> 90 then char_of (n + 32) else c)"

definition upper_char :: "char \<Rightarrow> char" where
  "upper_char c =
     (let n = (of_char c :: nat) in if 97 \<le> n \<and> n \<le> 122 then char_of (n - 32) else c)"

definition toLowerCase :: "string \<Rightarrow> string" where
  "toLowerCase s = map lower_char s"

text \<open>\<^verbatim>\<open>text.includes(keyword)\<close>: the keyword occurs as a contiguous substring.\<close>

definition str_includes :: "string \<Rightarrow> string \<Rightarrow> bool" where
  "str_includes text keyword = sublist keyword text"

text \<open>\<^verbatim>\<open>str.split(' ')\<close>: always at least one piece; adjacent separators give empty pieces.\<close>

fun split_on :: "char \<Rightarrow> string \<Rightarrow> string list" where
  "split_on sep [] = [[]]"
| "split_on sep (c # cs) =
     (if c = sep then [] # split_on sep cs
      else (case split_on sep cs of
              [] \<Rightarrow> [[c]]
            | w # ws \<Rightarrow> (c # w) # ws))"

text \<open>\<^verbatim>\<open>pieces.join(sep)\<close>.\<close>

fun join :: "string \<Rightarrow> string list \<Rightarrow> string" where
  "join sep [] = []"
| "join sep [w] = w"
| "join sep (w # ws) = w @ sep @ join sep ws"

text \<open>
  \<^verbatim>\<open>\s\<close> of a JavaScript regular expression, on 8-bit characters: tab, line feed, vertical
  tab, form feed, carriage return, space and the no-break space.
\<close>

definition is_space :: "char \<Rightarrow> bool" where
  "is_space c = (let n = (of_char c :: nat) in (9 \<le> n \<and> n \<le> 13) \<or> n = 32 \<or> n = 160)"

text \<open>\<^verbatim>\<open>str.replace(/\s+/g, '_')\<close>: every maximal run of white space becomes one underscore.\<close>

function replace_ws :: "string \<Rightarrow> string" where
  "replace_ws [] = []"
| "replace_ws (c # cs) =
     (if is_space c then CHR ''_'' # replace_ws (dropWhile is_space cs)
      else c # replace_ws cs)"
  by pat_completeness auto
termination
  by (relation "measure length") (auto simp: length_dropWhile_le less_Suc_eq_le)

declare replace_ws.simps [simp del]

text \<open>\<^verbatim>\<open>str.replace(/_/g, ' ')\<close>.\<close>

definition underscores_to_spaces :: "string \<Rightarrow> string" where
  "underscores_to_spaces s = map (\<lambda>c. if c = CHR ''_'' then CHR '' '' else c) s"

text \<open>
  \<^verbatim>\<open>capitalizeWords\<close>: split at single spaces, upper-case the first character of each piece
  (\<^verbatim>\<open>charAt(0)\<close> of an empty piece is the empty string), join with single spaces.
\<close>

definition capitalizeWords :: "string \<Rightarrow> string" where
  "capitalizeWords str =
     join '' '' (map (\<lambda>word. case word of [] \<Rightarrow> [] | c # cs \<Rightarrow> upper_char c # cs)
                     (split_on CHR '' '' str))"

text \<open>
  A counter printed inside a template literal: the decimal digits of the number, most
  significant first.
\<close>

definition digit_char :: "nat \<Rightarrow> char" where
  "digit_char d = char_of (48 + d)"

function show_nat :: "nat \<Rightarrow> string" where
  "show_nat n = (if n < 10 then [digit_char n] else show_nat (n div 10) @ [digit_char (n mod 10)])"
  by pat_completeness auto
termination
  by (relation "measure id") auto

declare show_nat.simps [simp del]

section \<open>Concept Extractor\<close>

text \<open>\<^verbatim>\<open>containsAny\<close>: some keyword, lower-cased, occurs in the text.\<close>

definition containsAny :: "string \<Rightarrow> string list \<Rightarrow> bool" where
  "containsAny text keywords = list_ex (\<lambda>keyword. str_includes text (toLowerCase keyword)) keywords"

record concept =
  c_type :: string
  c_condition :: string
  c_description :: string
  priority :: int

text \<open>\<^verbatim>\<open>if (cond) concepts.push(c)\<close>.\<close>

definition push_when :: "bool \<Rightarrow> 'a \<Rightarrow> 'a list \<Rightarrow> 'a list" where
  "push_when cond c concepts = (if cond then concepts @ [c] else concepts)"

definition individual_plans :: concept where
  "individual_plans = \<lparr>c_type = ''individual_plans'',
     c_condition = ''needs individual health insurance coverage'',
     c_description = ''Individual health insurance plans and coverage options'',
     priority = 1\<rparr>"

definition family_coverage :: concept where
  "family_coverage = \<lparr>c_type = ''family_coverage'',
     c_condition = ''needs family health insurance coverage'',
     c_description = ''Family health insurance plans and coverage options'',
     priority = 1\<rparr>"

definition group_business_plans :: concept where
  "group_business_plans = \<lparr>c_type = ''group_business_plans'',
     c_condition = ''needs business or group health insurance'',
     c_description = ''Business and group health insurance solutions'',
     priority = 2\<rparr>"

definition medicare_senior_plans :: concept where
  "medicare_senior_plans = \<lparr>c_type = ''medicare_senior_plans'',
     c_condition = ''needs Medicare or senior health coverage'',
     c_description = ''Medicare and senior health insurance options'',
     priority = 1\<rparr>"

definition special_medical_needs :: concept where
  "special_medical_needs = \<lparr>c_type = ''special_medical_needs'',
     c_condition = ''has special medical needs or pre-existing conditions'',
     c_description = ''Specialized coverage for medical conditions'',
     priority = 1\<rparr>"

definition budget_plans :: concept where
  "budget_plans = \<lparr>c_type = ''budget_plans'',
     c_condition = ''looking for budget-friendly insurance options'',
     c_description = ''Affordable health insurance solutions'',
     priority = 2\<rparr>"

definition premium_coverage :: concept where
  "premium_coverage = \<lparr>c_type = ''premium_coverage'',
     c_condition = ''wants premium or comprehensive coverage'',
     c_description = ''Premium health insurance with comprehensive benefits'',
     priority = 2\<rparr>"

definition urgent_assistance :: concept where
  "urgent_assistance = \<lparr>c_type = ''urgent_assistance'',
     c_condition = ''needs immediate or urgent assistance'',
     c_description = ''Urgent assistance and immediate support'',
     priority = 0\<rparr>"

text \<open>The rules that run inside \<^verbatim>\<open>if (domain === 'health insurance')\<close>, in source order.\<close>

definition health_insurance_concepts :: "string \<Rightarrow> concept list" where
  "health_insurance_concepts lowerDesc =
     (let concepts = [];
          concepts = push_when (containsAny lowerDesc [''individual'', ''single'', ''personal''])
                       individual_plans concepts;
          concepts = push_when (containsAny lowerDesc [''family'', ''spouse'', ''children'', ''dependents''])
                       family_coverage concepts;
          concepts = push_when (containsAny lowerDesc [''business'', ''group'', ''employer'', ''employees''])
                       group_business_plans concepts;
          concepts = push_when (containsAny lowerDesc [''medicare'', ''senior'', ''retirement'', ''65''])
                       medicare_senior_plans concepts;
          concepts = push_when (containsAny lowerDesc
                         [''pre-existing'', ''medical condition'', ''chronic'', ''specialist''])
                       special_medical_needs concepts;
          concepts = push_when (containsAny lowerDesc
                         [''budget'', ''affordable'', ''cost'', ''cheap'', ''low-cost''])
                       budget_plans concepts;
          concepts = push_when (containsAny lowerDesc
                         [''premium'', ''comprehensive'', ''best coverage'', ''top-tier''])
                       premium_coverage concepts
      in concepts)"

definition urgency_keywords :: "string list" where
  "urgency_keywords = [''urgent'', ''immediate'', ''emergency'', ''asap'', ''right away'']"

text \<open>
  \<^verbatim>\<open>extractDomainSpecificConcepts\<close>. The final \<^verbatim>\<open>concepts.sort((a, b) => a.priority - b.priority)\<close>
  is a stable sort (ECMAScript 2019, and the package requires Node 18), which
  \<^const>\<open>sort_key\<close> is as well.
\<close>

definition extractDomainSpecificConcepts :: "string \<Rightarrow> string \<Rightarrow> concept list" where
  "extractDomainSpecificConcepts description domain =
     (let lowerDesc = toLowerCase description;
          concepts = (if domain = ''health insurance'' then health_insurance_concepts lowerDesc
                      else []);
          concepts = push_when (containsAny lowerDesc urgency_keywords) urgent_assistance concepts
      in sort_key priority concepts)"

text \<open>\<^verbatim>\<open>extractBusinessType\<close>: the loop over \<^verbatim>\<open>words[i]\<close>, \<^verbatim>\<open>words[i + 1]\<close>.\<close>

fun business_type_scan :: "string list \<Rightarrow> string" where
  "business_type_scan (w # w' # ws) =
     (if w \<in> set [''business'', ''company'', ''service'', ''sales'', ''system'']
      then (if w' = [] then ''business'' else w')
      else business_type_scan (w' # ws))"
| "business_type_scan ws = ''specialized business''"

definition extractBusinessType :: "string \<Rightarrow> string" where
  "extractBusinessType text = business_type_scan (split_on CHR '' '' text)"

definition extractPrimaryDomain :: "string \<Rightarrow> string \<Rightarrow> string" where
  "extractPrimaryDomain description name =
     (let combined = toLowerCase (description @ '' '' @ name) in
      if containsAny combined [''health insurance'', ''medical insurance'', ''healthcare'',
                               ''insurance sales'']
      then ''health insurance''
      else if containsAny combined [''real estate'', ''property'', ''home sales'', ''mortgage'',
                                    ''realtor'']
      then ''real estate''
      else if containsAny combined [''financial'', ''investment'', ''banking'', ''loans'',
                                    ''finance'']
      then ''financial services''
      else if containsAny combined [''ecommerce'', ''online store'', ''shopping'', ''retail'',
                                    ''products'']
      then ''e-commerce''
      else if containsAny combined [''saas'', ''software'', ''technology'', ''platform'', ''app'']
      then ''technology''
      else extractBusinessType combined)"

definition extractPrimaryPurpose :: "string \<Rightarrow> string" where
  "extractPrimaryPurpose description =
     (let lowerDesc = toLowerCase description in
      if containsAny lowerDesc [''sales'', ''selling'', ''sell''] then ''sales''
      else if containsAny lowerDesc [''support'', ''service'', ''help''] then ''customer support''
      else if containsAny lowerDesc [''booking'', ''appointment'', ''schedule'']
      then ''appointment booking''
      else if containsAny lowerDesc [''consultation'', ''advisory'', ''advice''] then ''consultation''
      else if containsAny lowerDesc [''information'', ''inquiry'', ''questions''] then ''information''
      else ''specialized assistance'')"

section \<open>Data model\<close>

text \<open>
  \<^verbatim>\<open>PathwayNode\<close> with its \<^verbatim>\<open>data\<close> payload flattened into one record. \<^verbatim>\<open>data.type\<close> always
  mirrors \<^verbatim>\<open>type\<close> and is not repeated. An optional field is an \<open>option\<close>; the two flags
  \<^verbatim>\<open>isStart\<close> and \<^verbatim>\<open>isGlobal\<close> are only ever absent or \<^verbatim>\<open>true\<close>, and absent is \<open>False\<close>
  here. The prompt texts and the feature bags (dynamic data, custom tools, fine tuning, AI
  features, flow control, analytics, webhook body) are left out: they are constants copied
  into the node and no property below reads them.
\<close>

datatype node_type = Default | Webhook | KnowledgeBase | EndCall | TransferNode | WaitForResponse

type_synonym extract_var = "string \<times> string \<times> string \<times> bool option"

record PathwayNode =
  node_id :: string
  node_type :: node_type
  node_name :: string
  isStart :: bool
  isGlobal :: bool
  globalLabel :: "string option"
  node_condition :: "string option"
  extractVars :: "extract_var list option"
  webhookUrl :: "string option"
  webhookMethod :: "string option"
  kb :: "string option"
  transferNumber :: "string option"

text \<open>
  An edge stores whatever value the caller passes as \<^verbatim>\<open>source\<close> and \<^verbatim>\<open>target\<close>. The type
  annotation says \<^verbatim>\<open>string\<close>, but two template builders read these values out of a plain
  object used as a dictionary, where a lookup can also yield \<^verbatim>\<open>Object.prototype\<close> or
  \<^verbatim>\<open>undefined\<close>.
\<close>

datatype jsvalue = Str string | ObjectPrototype | Undefined

record PathwayEdge =
  edge_id :: string
  source :: jsvalue
  target :: jsvalue
  label :: string
  edge_name :: "string option"
  edge_description :: "string option"

text \<open>The \<^verbatim>\<open>{ nodes, edges }\<close> object every builder returns.\<close>

record pathway =
  nodes :: "PathwayNode list"
  edges :: "PathwayEdge list"

datatype error = TypeError

text \<open>
  A \<^verbatim>\<open>for (const x of xs)\<close> loop whose body updates the state and may throw: the first
  throw ends the loop and is the result.
\<close>

fun for_each :: "('a \<Rightarrow> 's \<Rightarrow> error + 's) \<Rightarrow> 'a list \<Rightarrow> 's \<Rightarrow> error + 's" where
  "for_each body [] s = Inr s"
| "for_each body (x # xs) s =
     (case body x s of Inl e \<Rightarrow> Inl e | Inr s' \<Rightarrow> for_each body xs s')"

section \<open>Graph Assembler\<close>

text \<open>
  The fields of \<^verbatim>\<open>DomainSpecificBranchingBuilder\<close> (its \<^verbatim>\<open>nodeMap\<close> is never used).
\<close>

record builder =
  b_nodes :: "PathwayNode list"
  b_edges :: "PathwayEdge list"
  nodeCount :: nat
  edgeCount :: nat
  domain :: string
  primaryPurpose :: string

definition new_builder :: builder where
  "new_builder = \<lparr>b_nodes = [], b_edges = [], nodeCount = 0, edgeCount = 0, domain = [],
     primaryPurpose = []\<rparr>"

text \<open>The node literal pushed by the \<^verbatim>\<open>createDomain...\<close> methods: only the listed fields are set.\<close>

definition plain_node :: "string \<Rightarrow> node_type \<Rightarrow> string \<Rightarrow> PathwayNode" where
  "plain_node nid ty nm = \<lparr>node_id = nid, node_type = ty, node_name = nm, isStart = False,
     isGlobal = False, globalLabel = None, node_condition = None, extractVars = None,
     webhookUrl = None, webhookMethod = None, kb = None, transferNumber = None\<rparr>"

definition createConditionalEdge ::
    "string \<Rightarrow> string \<Rightarrow> string \<Rightarrow> string \<Rightarrow> builder \<Rightarrow> builder" where
  "createConditionalEdge sourceId targetId cond descr b =
     (let c = edgeCount b + 1;
          edgeId = replace_ws (domain b) @ ''_edge_'' @ show_nat c
      in b\<lparr>edgeCount := c,
           b_edges := b_edges b @
             [\<lparr>edge_id = edgeId, source = Str sourceId, target = Str targetId, label = cond,
               edge_name = Some (capitalizeWords (domain b) @ '': '' @ cond),
               edge_description = Some descr\<rparr>]\<rparr>)"

definition createDomainSpecificHub :: "concept list \<Rightarrow> builder \<Rightarrow> string \<times> builder" where
  "createDomainSpecificHub concepts b =
     (let c = nodeCount b + 1;
          hubId = replace_ws (domain b) @ ''_hub_'' @ show_nat c
      in (hubId,
          b\<lparr>nodeCount := c,
            b_nodes := b_nodes b @
              [(plain_node hubId Default
                  (capitalizeWords (domain b) @ '' '' @ capitalizeWords (primaryPurpose b) @ '' Hub''))
                \<lparr>isStart := True,
                 extractVars := Some
                   [(replace_ws (domain b) @ ''_need'', ''string'',
                       ''Specific '' @ domain b @ '' requirement'', None),
                    (''customer_category'', ''string'', ''Type of customer or situation'', None),
                    (''urgency_level'', ''string'', ''How urgent their need is'', None),
                    (''budget_range'', ''string'', ''Budget considerations if applicable'', None)]\<rparr>]\<rparr>))"

definition getDomainVariablesForConcept :: "string \<Rightarrow> string \<Rightarrow> extract_var list" where
  "getDomainVariablesForConcept conceptType dmn =
     (let baseVars =
            [(conceptType @ ''_preference'', ''string'',
                ''Specific preferences for '' @ underscores_to_spaces conceptType, Some True),
             (conceptType @ ''_timeline'', ''string'',
                ''Timeline for '' @ underscores_to_spaces conceptType, Some False)]
      in if dmn = ''health insurance'' then
           (if conceptType = ''individual_plans'' then baseVars @
              [(''current_health_status'', ''string'', ''Current health status and medical needs'', Some True),
               (''preferred_deductible'', ''string'', ''Preferred deductible range'', Some False),
               (''doctor_preferences'', ''string'', ''Preferred doctors or networks'', Some False),
               (''monthly_budget'', ''string'', ''Monthly premium budget'', Some True),
               (''prescription_medications'', ''string'', ''Current prescription medications'', Some False),
               (''coverage_priorities'', ''string'', ''Most important coverage priorities'', Some True)]
            else if conceptType = ''family_coverage'' then baseVars @
              [(''family_size'', ''integer'', ''Number of family members to cover'', Some True),
               (''ages_of_dependents'', ''string'', ''Ages of spouse and children'', Some True),
               (''maternity_needs'', ''boolean'', ''Whether maternity coverage is needed'', Some False),
               (''pediatric_needs'', ''string'', ''Specific pediatric care requirements'', Some False),
               (''family_medical_history'', ''string'', ''Relevant family medical history'', Some False),
               (''childcare_providers'', ''string'', ''Preferred pediatricians or hospitals'', Some False)]
            else if conceptType = ''medicare_senior_plans'' then baseVars @
              [(''age'', ''integer'', ''Age of primary beneficiary'', Some True),
               (''current_medicare_status'', ''string'', ''Current Medicare enrollment status'', Some True),
               (''prescription_needs'', ''string'', ''Current prescription medications'', Some False),
               (''supplement_interest'', ''boolean'', ''Interest in supplemental coverage'', Some False),
               (''retirement_status'', ''string'', ''Current retirement status'', Some False),
               (''healthcare_frequency'', ''string'', ''How often you visit healthcare providers'', Some False)]
            else if conceptType = ''group_business_plans'' then baseVars @
              [(''business_size'', ''integer'', ''Number of employees'', Some True),
               (''business_type'', ''string'', ''Type of business or industry'', Some True),
               (''current_coverage'', ''string'', ''Current group coverage if any'', Some False),
               (''budget_per_employee'', ''string'', ''Budget per employee per month'', Some False),
               (''employee_demographics'', ''string'', ''General age range and family status'', Some False),
               (''coverage_requirements'', ''string'', ''Specific coverage requirements'', Some False)]
            else baseVars)
         else baseVars)"

definition createDomainConceptNode :: "concept \<Rightarrow> builder \<Rightarrow> string \<times> builder" where
  "createDomainConceptNode concept b =
     (let c = nodeCount b + 1;
          nodeId = c_type concept @ ''_specialist_'' @ show_nat c;
          conceptVars = getDomainVariablesForConcept (c_type concept) (domain b);
          builtNode =
            (plain_node nodeId Default
               (capitalizeWords (underscores_to_spaces (c_type concept)) @ '' Specialist''))
              \<lparr>node_condition := Some (''Must fully address '' @
                   underscores_to_spaces (c_type concept) @ '' requirements''),
               extractVars := Some conceptVars\<rparr>
      in (nodeId, b\<lparr>nodeCount := c, b_nodes := b_nodes b @ [builtNode]\<rparr>))"

text \<open>
  The descriptors of the options bag come from \<^verbatim>\<open>JSON.parse\<close>, so any field may be missing.
  \<open>None\<close> is a field that is absent (or not a string): calling a string method on it
  throws a \<^verbatim>\<open>TypeError\<close>.
\<close>

record webhook =
  wh_name :: "string option"
  wh_url :: "string option"
  wh_method :: "string option"

record knowledge_base =
  kb_name :: "string option"
  kb_content :: "string option"
  trigger_phrases :: "string list option"

record transfer =
  tr_name :: "string option"
  tr_number :: "string option"
  tr_conditions :: "string list option"

text \<open>\<^verbatim>\<open>a || b\<close> on strings: an absent value and the empty string are falsy.\<close>

definition or_else :: "string option \<Rightarrow> string \<Rightarrow> string" where
  "or_else a b = (case a of None \<Rightarrow> b | Some s \<Rightarrow> if s = [] then b else s)"

definition createDomainWebhookNode :: "webhook \<Rightarrow> builder \<Rightarrow> error + string \<times> builder" where
  "createDomainWebhookNode wh b =
     (case wh_name wh of
        None \<Rightarrow> Inl TypeError
      | Some nm \<Rightarrow>
          (let c = nodeCount b + 1;
               nodeId = replace_ws (domain b) @ ''_'' @ toLowerCase (replace_ws nm) @ ''_'' @ show_nat c
           in Inr (nodeId,
                b\<lparr>nodeCount := c,
                  b_nodes := b_nodes b @
                    [(plain_node nodeId Webhook (capitalizeWords (domain b) @ '' '' @ nm))
                      \<lparr>webhookUrl := wh_url wh,
                       webhookMethod := Some (or_else (wh_method wh) ''POST'')\<rparr>]\<rparr>)))"

definition createDomainKnowledgeBaseNode ::
    "knowledge_base \<Rightarrow> builder \<Rightarrow> error + string \<times> builder" where
  "createDomainKnowledgeBaseNode k b =
     (case kb_name k of
        None \<Rightarrow> Inl TypeError
      | Some nm \<Rightarrow>
          (let c = nodeCount b + 1;
               nodeId = replace_ws (domain b) @ ''_'' @ toLowerCase (replace_ws nm) @ ''_'' @ show_nat c
           in Inr (nodeId,
                b\<lparr>nodeCount := c,
                  b_nodes := b_nodes b @
                    [(plain_node nodeId KnowledgeBase (capitalizeWords (domain b) @ '' '' @ nm))
                      \<lparr>kb := kb_content k\<rparr>]\<rparr>)))"

definition createDomainTransferNode :: "transfer \<Rightarrow> builder \<Rightarrow> error + string \<times> builder" where
  "createDomainTransferNode t b =
     (case tr_name t of
        None \<Rightarrow> Inl TypeError
      | Some nm \<Rightarrow>
          (let c = nodeCount b + 1;
               nodeId = replace_ws (domain b) @ ''_'' @ toLowerCase (replace_ws nm) @ ''_'' @ show_nat c
           in Inr (nodeId,
                b\<lparr>nodeCount := c,
                  b_nodes := b_nodes b @
                    [(plain_node nodeId TransferNode (capitalizeWords (domain b) @ '' '' @ nm))
                      \<lparr>transferNumber := tr_number t\<rparr>]\<rparr>)))"

definition createDomainResolutionNode :: "builder \<Rightarrow> string \<times> builder" where
  "createDomainResolutionNode b =
     (let c = nodeCount b + 1;
          nodeId = replace_ws (domain b) @ ''_resolution_'' @ show_nat c
      in (nodeId,
          b\<lparr>nodeCount := c,
            b_nodes := b_nodes b @
              [(plain_node nodeId Default (capitalizeWords (domain b) @ '' Resolution & Satisfaction''))
                \<lparr>extractVars := Some
                   [(replace_ws (domain b) @ ''_satisfaction'', ''string'',
                       ''Satisfaction with '' @ domain b @ '' service'', None),
                    (''additional_'' @ replace_ws (domain b) @ ''_needs'', ''boolean'',
                       ''Additional '' @ domain b @ '' assistance needed'', None),
                    (''next_steps'', ''string'', ''Next steps customer wants to take'', None)]\<rparr>]\<rparr>))"

definition createDomainCompletionNode :: "builder \<Rightarrow> string \<times> builder" where
  "createDomainCompletionNode b =
     (let c = nodeCount b + 1;
          nodeId = replace_ws (domain b) @ ''_completion_'' @ show_nat c
      in (nodeId,
          b\<lparr>nodeCount := c,
            b_nodes := b_nodes b @
              [plain_node nodeId EndCall (capitalizeWords (domain b) @ '' Service Complete'')]\<rparr>))"

text \<open>
  The options bag read by \<^verbatim>\<open>buildFromDescription\<close>. A list that is absent behaves as the
  empty list: the guard \<^verbatim>\<open>args.xs?.length > 0\<close> is false for both, and a loop over the empty
  list does nothing.
\<close>

record build_args =
  args_name :: string
  webhook_integrations :: "webhook list"
  knowledge_bases :: "knowledge_base list"
  transfer_numbers :: "transfer list"

text \<open>
  Step 4, the body of the loop over the concepts. \<^verbatim>\<open>conceptNodeIds\<close> is a \<^verbatim>\<open>Map\<close> from concept
  type to node id: an association list in insertion order, where setting a key that is
  present replaces its value in place.
\<close>

definition concept_step ::
    "string \<Rightarrow> concept \<Rightarrow> (string \<times> string) list \<times> builder \<Rightarrow> (string \<times> string) list \<times> builder" where
  "concept_step hubId concept s =
     (let (conceptNodeIds, b) = s;
          (nodeId, b) = createDomainConceptNode concept b;
          conceptNodeIds = AList.update (c_type concept) nodeId conceptNodeIds;
          b = createConditionalEdge hubId nodeId (c_condition concept) (c_description concept) b
      in (conceptNodeIds, b))"

text \<open>Step 5, the body of the loop over the webhook integrations.\<close>

definition webhook_step :: "string \<Rightarrow> webhook \<Rightarrow> builder \<Rightarrow> error + builder" where
  "webhook_step hubId wh b =
     (case createDomainWebhookNode wh b of
        Inl e \<Rightarrow> Inl e
      | Inr (webhookId, b) \<Rightarrow>
          (case wh_name wh of
             None \<Rightarrow> Inl TypeError
           | Some nm \<Rightarrow>
               Inr (createConditionalEdge hubId webhookId (''needs '' @ toLowerCase nm)
                      (''Route to '' @ nm @ '' for domain-specific processing'') b)))"

text \<open>\<^verbatim>\<open>xs?.join(' or ') || fallback\<close>.\<close>

definition joined_or :: "string list option \<Rightarrow> string \<Rightarrow> string" where
  "joined_or phrases fallback = or_else (map_option (join '' or '') phrases) fallback"

text \<open>Step 6, the body of the loop over the knowledge bases.\<close>

definition kb_step :: "string \<Rightarrow> knowledge_base \<Rightarrow> builder \<Rightarrow> error + builder" where
  "kb_step hubId k b =
     (case createDomainKnowledgeBaseNode k b of
        Inl e \<Rightarrow> Inl e
      | Inr (kbId, b) \<Rightarrow>
          (case kb_name k of
             None \<Rightarrow> Inl TypeError
           | Some nm \<Rightarrow>
               (let triggerCondition =
                      joined_or (trigger_phrases k) (''questions about '' @ toLowerCase nm)
                in Inr (createConditionalEdge hubId kbId (''asks about '' @ triggerCondition)
                          (''Provide specialized information from '' @ nm) b))))"

text \<open>Step 7, the body of the loop over the transfer targets.\<close>

definition transfer_step :: "string \<Rightarrow> transfer \<Rightarrow> builder \<Rightarrow> error + builder" where
  "transfer_step hubId t b =
     (case createDomainTransferNode t b of
        Inl e \<Rightarrow> Inl e
      | Inr (transferId, b) \<Rightarrow>
          (case tr_name t of
             None \<Rightarrow> Inl TypeError
           | Some nm \<Rightarrow>
               (let conditions = joined_or (tr_conditions t) (''needs '' @ toLowerCase nm)
                in Inr (createConditionalEdge hubId transferId conditions
                          (''Transfer to '' @ nm @ '' for specialized assistance'') b))))"

text \<open>
  Steps 1 and 2: the Concept Extractor as \<^verbatim>\<open>buildFromDescription\<close> runs it, storing domain
  and purpose in the builder.
\<close>

definition analyse :: "string \<Rightarrow> string \<Rightarrow> builder \<Rightarrow> concept list \<times> builder" where
  "analyse description name b =
     (let b = b\<lparr>domain := extractPrimaryDomain description name\<rparr>;
          b = b\<lparr>primaryPurpose := extractPrimaryPurpose description\<rparr>;
          domainConcepts = extractDomainSpecificConcepts description (domain b)
      in (domainConcepts, b))"

text \<open>Steps 1 to 7: the hub and the fan-out from it.\<close>

definition fan_out ::
    "string \<Rightarrow> build_args \<Rightarrow> builder \<Rightarrow> error + string \<times> (string \<times> string) list \<times> builder" where
  "fan_out description args b =
     (let (domainConcepts, b) = analyse description (args_name args) b;
          (hubId, b) = createDomainSpecificHub domainConcepts b;
          (conceptNodeIds, b) = fold (concept_step hubId) domainConcepts ([], b)
      in case for_each (webhook_step hubId) (webhook_integrations args) b of
           Inl e \<Rightarrow> Inl e
         | Inr b \<Rightarrow>
        (case for_each (kb_step hubId) (knowledge_bases args) b of
           Inl e \<Rightarrow> Inl e
         | Inr b \<Rightarrow>
        (case for_each (transfer_step hubId) (transfer_numbers args) b of
           Inl e \<Rightarrow> Inl e
         | Inr b \<Rightarrow> Inr (hubId, conceptNodeIds, b))))"

text \<open>
  Step 8 and the completion routing. \<^verbatim>\<open>conceptNodeIds.has(node.id)\<close> looks the node id up
  among the keys of the map, which are concept types.
\<close>

definition converge ::
    "string \<Rightarrow> (string \<times> string) list \<Rightarrow> build_args \<Rightarrow> builder \<Rightarrow> pathway" where
  "converge hubId conceptNodeIds args b =
     (let (resolutionId, b) = createDomainResolutionNode b;
          (completionId, b) = createDomainCompletionNode b;
          b = fold (\<lambda>(conceptType, nodeId).
                      createConditionalEdge nodeId resolutionId
                        (conceptType @ '' assistance complete'')
                        (''Complete '' @ conceptType @ '' assistance and assess satisfaction''))
                conceptNodeIds b;
          b = (if webhook_integrations args \<noteq> [] \<or> knowledge_bases args \<noteq> [] \<or>
                  transfer_numbers args \<noteq> []
               then
                 (let otherNodeIds =
                        map node_id
                          (filter (\<lambda>node. map_of conceptNodeIds (node_id node) = None)
                             (filter (\<lambda>node. node_id node \<noteq> hubId \<and> node_id node \<noteq> resolutionId \<and>
                                             node_id node \<noteq> completionId)
                                (b_nodes b)))
                  in fold (\<lambda>nodeId.
                             createConditionalEdge nodeId resolutionId
                               ''service completed successfully''
                               ''Complete service and assess customer satisfaction'')
                       otherNodeIds b)
               else b);
          b = createConditionalEdge resolutionId completionId
                (''satisfied with '' @ domain b @ '' service'')
                (''Complete '' @ domain b @ '' interaction'') b;
          b = createConditionalEdge resolutionId hubId
                (''additional '' @ domain b @ '' needs'')
                (''Return to '' @ domain b @ '' options'') b
      in \<lparr>nodes = b_nodes b, edges = b_edges b\<rparr>)"

text \<open>
  \<^verbatim>\<open>buildFromDescription\<close>, a method of the builder \<open>b\<close>. Both call sites run it on a builder
  made by \<^verbatim>\<open>new DomainSpecificBranchingBuilder()\<close>, which is \<^const>\<open>new_builder\<close>.
\<close>

definition buildFromDescription :: "string \<Rightarrow> build_args \<Rightarrow> builder \<Rightarrow> error + pathway" where
  "buildFromDescription description args b =
     (case fan_out description args b of
        Inl e \<Rightarrow> Inl e
      | Inr (hubId, conceptNodeIds, b) \<Rightarrow> Inr (converge hubId conceptNodeIds args b))"

section \<open>Graph properties\<close>

definition node_ids :: "pathway \<Rightarrow> string list" where
  "node_ids g = map node_id (nodes g)"

text \<open>Both ends of the edge are ids of nodes of the graph.\<close>

definition edge_closed :: "pathway \<Rightarrow> PathwayEdge \<Rightarrow> bool" where
  "edge_closed g e = (source e \<in> Str ` set (node_ids g) \<and> target e \<in> Str ` set (node_ids g))"

text \<open>The edges of the graph as a relation, and reachability along them.\<close>

definition edge_rel :: "pathway \<Rightarrow> (jsvalue \<times> jsvalue) set" where
  "edge_rel g = set (map (\<lambda>e. (source e, target e)) (edges g))"

definition reachable :: "pathway \<Rightarrow> string \<Rightarrow> string \<Rightarrow> bool" where
  "reachable g a b = ((Str a, Str b) \<in> (edge_rel g)\<^sup>*)"

text \<open>The edges that lead from one node to another.\<close>

definition edges_between :: "pathway \<Rightarrow> string \<Rightarrow> string \<Rightarrow> PathwayEdge list" where
  "edges_between g a b = filter (\<lambda>e. source e = Str a \<and> target e = Str b) (edges g)"

section \<open>Node Factory and Edge Factory\<close>

text \<open>
  \<^verbatim>\<open>ModularNodeBuilder\<close>: the builder holds the node under construction, and each chained
  method returns it updated. \<^verbatim>\<open>build()\<close> returns the node as it stands (the name given to
  the constructor is always a string, so the fallback \<^verbatim>\<open>name || ''\<close> changes nothing).
\<close>

definition new_ModularNodeBuilder :: "string \<Rightarrow> string \<Rightarrow> PathwayNode" where
  "new_ModularNodeBuilder nid nm = plain_node nid Default nm"

definition asTransfer :: "string \<Rightarrow> PathwayNode \<Rightarrow> PathwayNode" where
  "asTransfer phoneNumber n = n\<lparr>node_type := TransferNode, transferNumber := Some phoneNumber\<rparr>"

definition asKnowledgeBase :: "string \<Rightarrow> PathwayNode \<Rightarrow> PathwayNode" where
  "asKnowledgeBase kbContent n = n\<lparr>node_type := KnowledgeBase, kb := Some kbContent\<rparr>"

definition asEndCall :: "PathwayNode \<Rightarrow> PathwayNode" where
  "asEndCall n = n\<lparr>node_type := EndCall\<rparr>"

definition asStart :: "PathwayNode \<Rightarrow> PathwayNode" where
  "asStart n = n\<lparr>isStart := True\<rparr>"

definition asGlobal :: "string \<Rightarrow> PathwayNode \<Rightarrow> PathwayNode" where
  "asGlobal lbl n = n\<lparr>isGlobal := True, globalLabel := Some lbl\<rparr>"

definition withCondition :: "string \<Rightarrow> PathwayNode \<Rightarrow> PathwayNode" where
  "withCondition c n = n\<lparr>node_condition := Some c\<rparr>"

definition withVariableExtraction :: "extract_var list \<Rightarrow> PathwayNode \<Rightarrow> PathwayNode" where
  "withVariableExtraction vars n = n\<lparr>extractVars := Some vars\<rparr>"

text \<open>\<^verbatim>\<open>ModularPathwayBuilder\<close>.\<close>

record ModularPathwayBuilder =
  m_nodes :: "PathwayNode list"
  m_edges :: "PathwayEdge list"
  m_nodeCount :: nat
  m_edgeCount :: nat

definition new_ModularPathwayBuilder :: ModularPathwayBuilder where
  "new_ModularPathwayBuilder = \<lparr>m_nodes = [], m_edges = [], m_nodeCount = 0, m_edgeCount = 0\<rparr>"

definition createNode :: "string \<Rightarrow> ModularPathwayBuilder \<Rightarrow> PathwayNode \<times> ModularPathwayBuilder" where
  "createNode nm b =
     (let c = m_nodeCount b + 1
      in (new_ModularNodeBuilder (''node_'' @ show_nat c) nm, b\<lparr>m_nodeCount := c\<rparr>))"

definition addNode :: "PathwayNode \<Rightarrow> ModularPathwayBuilder \<Rightarrow> string \<times> ModularPathwayBuilder" where
  "addNode node b = (node_id node, b\<lparr>m_nodes := m_nodes b @ [node]\<rparr>)"

definition addEdge ::
    "jsvalue \<Rightarrow> jsvalue \<Rightarrow> string \<Rightarrow> (string \<times> string) option \<Rightarrow> ModularPathwayBuilder
      \<Rightarrow> ModularPathwayBuilder" where
  "addEdge src tgt lbl metadata b =
     (let c = m_edgeCount b + 1
      in b\<lparr>m_edgeCount := c,
           m_edges := m_edges b @
             [\<lparr>edge_id = ''edge_'' @ show_nat c, source = src, target = tgt, label = lbl,
               edge_name = map_option fst metadata,
               edge_description = map_option snd metadata\<rparr>]\<rparr>)"

definition build :: "ModularPathwayBuilder \<Rightarrow> pathway" where
  "build b = \<lparr>nodes = m_nodes b, edges = m_edges b\<rparr>"

text \<open>
  The idiom \<^verbatim>\<open>builder.addNode(builder.createNode(name).m1(...).m2(...))\<close>: the node is created
  (which advances the counter), configured by the chained methods, and added.
\<close>

definition add_new ::
    "string \<Rightarrow> (PathwayNode \<Rightarrow> PathwayNode) \<Rightarrow> ModularPathwayBuilder \<Rightarrow> string \<times> ModularPathwayBuilder" where
  "add_new nm configure b = (let (node, b) = createNode nm b in addNode (configure node) b)"

section \<open>Specialized Templates\<close>

subsection \<open>Enterprise sales\<close>

record sales_args =
  company_name :: string
  product_or_service :: string
  transfer_number :: "string option"

definition buildEnterpriseSalesPathway :: "sales_args \<Rightarrow> pathway" where
  "buildEnterpriseSalesPathway args =
     (let b = new_ModularPathwayBuilder;
          (helpNodeId, b) = add_new ''Sales Help & Clarification'' (asGlobal ''help'') b;
          (qualificationHubId, b) =
            add_new (company_name args @ '' Enterprise Sales'')
              (\<lambda>n. withVariableExtraction
                 [(''company_name'', ''string'', ''Prospect company name'', Some True),
                  (''company_size'', ''integer'', ''Number of employees'', Some True),
                  (''annual_revenue'', ''string'', ''Annual company revenue'', Some False),
                  (''current_solution'', ''string'', ''Current solution in use'', Some False),
                  (''decision_timeframe'', ''string'', ''Decision timeline'', Some True),
                  (''budget_authority'', ''boolean'', ''Has budget authority'', Some True),
                  (''pain_points'', ''string'', ''Current challenges'', Some True)]
                 (asStart n)) b;
          (leadScoringId, b) =
            add_new ''Enterprise Lead Scoring''
              (withCondition ''Must calculate lead score before proceeding'') b;
          (objectionNodeId, b) =
            add_new ''Objection Resolution Specialist'' (asGlobal ''objection'') b;
          (highValueId, b) =
            add_new ''High-Value Enterprise Specialist'' (withCondition ''Lead score >= 50 points'') b;
          (qualifiedId, b) =
            add_new ''Qualified Prospect Specialist''
              (\<lambda>n. withVariableExtraction
                 [(''preferred_demo_time'', ''string'', ''Preferred demo scheduling'', Some True),
                  (''key_stakeholders'', ''string'', ''Other decision makers'', Some False),
                  (''technical_requirements'', ''string'', ''Technical integration needs'', Some False)]
                 (withCondition ''Lead score >= 40 points'' n)) b;
          (nurtureId, b) =
            add_new ''Prospect Nurturing System''
              (\<lambda>n. withVariableExtraction
                 [(''follow_up_timeframe'', ''string'', ''When to follow up'', Some True),
                  (''information_interests'', ''string'', ''Types of information wanted'', Some False)]
                 (withCondition ''Lead score < 40 points'' n)) b;
          (transferId, b) =
            add_new ''Enterprise Sales Executive Transfer''
              (asTransfer (or_else (transfer_number args) ''+1-800-ENTERPRISE'')) b;
          (completionId, b) = add_new ''Sales Process Complete'' asEndCall b;
          b = addEdge (Str qualificationHubId) (Str leadScoringId) ''completed qualification questions''
                (Some (''Qualification Complete'', ''All required qualification data collected'')) b;
          b = addEdge (Str leadScoringId) (Str highValueId) ''high-value enterprise prospect''
                (Some (''High-Value Route'', ''Score >= 50, enterprise fit'')) b;
          b = addEdge (Str leadScoringId) (Str qualifiedId) ''qualified enterprise prospect''
                (Some (''Qualified Route'', ''Score >= 40, good fit'')) b;
          b = addEdge (Str leadScoringId) (Str nurtureId) ''prospect needs nurturing''
                (Some (''Nurture Route'', ''Score < 40, future potential'')) b;
          b = addEdge (Str highValueId) (Str transferId) ''ready for executive consultation''
                (Some (''Executive Transfer'', ''High-value prospect ready for senior sales'')) b;
          b = addEdge (Str qualifiedId) (Str transferId) ''ready for detailed demo''
                (Some (''Demo Transfer'', ''Qualified prospect ready for demo'')) b;
          b = addEdge (Str transferId) (Str completionId) ''transfer completed''
                (Some (''Process Complete'', ''Successfully transferred to sales team'')) b;
          b = addEdge (Str nurtureId) (Str completionId) ''nurture process complete''
                (Some (''Nurture Complete'', ''Added to nurture campaign'')) b
      in build b)"

subsection \<open>Customer service\<close>

text \<open>
  \<^verbatim>\<open>specialistNodes\<close> and \<^verbatim>\<open>decisionNodes\<close> are plain objects (\<^verbatim>\<open>Record<string, string> = {}\<close>)
  used as dictionaries. An assignment \<^verbatim>\<open>obj[k] = v\<close> of a string creates or replaces the own
  property \<open>k\<close>, except for the key \<^verbatim>\<open>__proto__\<close>: that assignment runs the setter inherited
  from \<^verbatim>\<open>Object.prototype\<close>, which ignores a value that is not an object. A read \<^verbatim>\<open>obj[k]\<close>
  yields the own property, and for \<^verbatim>\<open>__proto__\<close> the prototype of the object, which is
  \<^verbatim>\<open>Object.prototype\<close>. The builders read only keys they have assigned before, so a read
  of any other missing key (here \<open>Undefined\<close>) does not arise.
\<close>

type_synonym js_object = "(string \<times> string) list"

definition obj_set :: "string \<Rightarrow> string \<Rightarrow> js_object \<Rightarrow> js_object" where
  "obj_set k v obj = (if k = ''__proto__'' then obj else AList.update k v obj)"

definition obj_get :: "js_object \<Rightarrow> string \<Rightarrow> jsvalue" where
  "obj_get obj k =
     (if k = ''__proto__'' then ObjectPrototype
      else (case map_of obj k of None \<Rightarrow> Undefined | Some v \<Rightarrow> Str v))"

text \<open>\<^verbatim>\<open>s.charAt(0).toUpperCase() + s.slice(1)\<close>.\<close>

definition capitalize_first :: "string \<Rightarrow> string" where
  "capitalize_first s = (case s of [] \<Rightarrow> [] | c # cs \<Rightarrow> upper_char c # cs)"

record service_args =
  svc_company_name :: string
  service_types :: "string list"
  knowledge_base_content :: "string option"
  escalation_number :: "string option"

text \<open>Step 4 of the builder: one specialist node per service type.\<close>

definition specialist_step ::
    "string \<Rightarrow> js_object \<times> ModularPathwayBuilder \<Rightarrow> js_object \<times> ModularPathwayBuilder" where
  "specialist_step serviceType s =
     (let (specialistNodes, b) = s;
          (specialistId, b) =
            add_new (capitalize_first serviceType @ '' Specialist'')
              (\<lambda>n. withVariableExtraction
                 [(serviceType @ ''_details'', ''string'',
                     ''Specific '' @ serviceType @ '' issue details'', Some True),
                  (serviceType @ ''_resolution_preference'', ''string'',
                     ''Preferred resolution method'', Some False)]
                 (withCondition (''Issue classified as '' @ serviceType) n)) b
      in (obj_set serviceType specialistId specialistNodes, b))"

definition buildAdvancedCustomerServicePathway :: "service_args \<Rightarrow> pathway" where
  "buildAdvancedCustomerServicePathway args =
     (let b = new_ModularPathwayBuilder;
          (escalationNodeId, b) =
            add_new ''Escalation Manager''
              (\<lambda>n. asTransfer (or_else (escalation_number args) ''+1-800-ESCALATE'')
                     (asGlobal ''escalate'' n)) b;
          (serviceHubId, b) =
            add_new (svc_company_name args @ '' Customer Service'')
              (\<lambda>n. withVariableExtraction
                 [(''customer_email'', ''string'', ''Customer email address'', Some True),
                  (''issue_category'', ''string'', ''Type of issue or question'', Some True),
                  (''urgency_level'', ''string'', ''How urgent is this issue'', Some False),
                  (''previous_ticket'', ''string'', ''Any previous support ticket numbers'', Some False)]
                 (asStart n)) b;
          (classificationId, b) = add_new ''Intelligent Issue Classification'' (\<lambda>n. n) b;
          (specialistNodes, b) = fold specialist_step (service_types args) ([], b);
          (knowledgeBaseId, b) =
            add_new ''Knowledge Base Search''
              (asKnowledgeBase (or_else (knowledge_base_content args)
                 ''Comprehensive customer service knowledge base with solutions, procedures, and troubleshooting guides.'')) b;
          (satisfactionId, b) =
            add_new ''Customer Satisfaction Survey''
              (withVariableExtraction
                 [(''satisfaction_rating'', ''integer'', ''Satisfaction rating 1-10'', Some True),
                  (''service_feedback'', ''string'', ''Additional feedback or comments'', Some False),
                  (''follow_up_needed'', ''boolean'', ''Does this need follow-up'', Some False)]) b;
          (completionId, b) = add_new ''Service Complete'' asEndCall b;
          b = addEdge (Str serviceHubId) (Str classificationId) ''issue information collected''
                (Some (''Classification Route'', ''Route to issue analysis'')) b;
          b = fold (\<lambda>serviceType.
                      addEdge (Str classificationId) (obj_get specialistNodes serviceType)
                        (''issue classified as '' @ serviceType)
                        (Some (serviceType @ '' Route'', ''Route to '' @ serviceType @ '' specialist'')))
                (service_types args) b;
          b = addEdge (Str classificationId) (Str knowledgeBaseId) ''needs knowledge base search''
                (Some (''Knowledge Base Route'', ''Route to knowledge base for information'')) b;
          b = fold (\<lambda>serviceType.
                      addEdge (obj_get specialistNodes serviceType) (Str satisfactionId)
                        (serviceType @ '' issue resolved'')
                        (Some (''Resolution Complete'', serviceType @ '' issue successfully resolved'')))
                (service_types args) b;
          b = addEdge (Str knowledgeBaseId) (Str satisfactionId) ''information provided''
                (Some (''Information Complete'', ''Knowledge base information provided'')) b;
          b = addEdge (Str satisfactionId) (Str completionId) ''satisfaction survey complete''
                (Some (''Survey Complete'', ''Customer satisfaction survey completed'')) b
      in build b)"

subsection \<open>Appointment booking\<close>

text \<open>
  The arguments of this builder (business name, service types, hours, confirmation method)
  reach only one node name and the prompts.
\<close>

record appointment_args =
  business_name :: string

definition buildIntelligentAppointmentSystem :: "appointment_args \<Rightarrow> pathway" where
  "buildIntelligentAppointmentSystem args =
     (let b = new_ModularPathwayBuilder;
          (rescheduleNodeId, b) =
            add_new ''Appointment Rescheduling''
              (\<lambda>n. withVariableExtraction
                 [(''current_appointment_id'', ''string'', ''Current appointment reference'', Some False),
                  (''preferred_new_time'', ''string'', ''Preferred new appointment time'', Some True),
                  (''reason_for_change'', ''string'', ''Reason for rescheduling'', Some False)]
                 (asGlobal ''reschedule'' n)) b;
          (bookingHubId, b) =
            add_new (business_name args @ '' Appointment Booking'')
              (\<lambda>n. withVariableExtraction
                 [(''customer_name'', ''string'', ''Customer full name'', Some True),
                  (''customer_phone'', ''string'', ''Customer phone number'', Some True),
                  (''customer_email'', ''string'', ''Customer email address'', Some True),
                  (''service_requested'', ''string'', ''Type of service needed'', Some True),
                  (''preferred_date'', ''string'', ''Preferred appointment date'', Some True),
                  (''preferred_time'', ''string'', ''Preferred appointment time'', Some True)]
                 (asStart n)) b;
          (serviceSelectionId, b) = add_new ''Service Selection & Information'' (\<lambda>n. n) b;
          (availabilityId, b) =
            add_new ''Real-Time Availability Checker''
              (withCondition ''Service selected and preferred time provided'') b;
          (confirmationId, b) =
            add_new ''Appointment Confirmation''
              (\<lambda>n. withCondition ''Available slot found''
                 (withVariableExtraction
                    [(''confirmation_agreed'', ''boolean'', ''Customer confirms appointment'', Some True),
                     (''special_requests'', ''string'', ''Any special requests or notes'', Some False),
                     (''preferred_reminder_method'', ''string'', ''How to send reminders'', Some False)]
                    n)) b;
          (bookingCompleteId, b) = add_new ''Booking Completion & Confirmation'' (\<lambda>n. n) b;
          (alternativeTimesId, b) =
            add_new ''Alternative Time Options''
              (\<lambda>n. withCondition ''Preferred time not available''
                 (withVariableExtraction
                    [(''selected_alternative'', ''string'', ''Chosen alternative time'', Some True)] n)) b;
          (completionId, b) = add_new ''Appointment Booking Complete'' asEndCall b;
          b = addEdge (Str bookingHubId) (Str serviceSelectionId) ''service interest expressed''
                (Some (''Service Selection'', ''Customer interested in specific service'')) b;
          b = addEdge (Str serviceSelectionId) (Str availabilityId) ''service selected''
                (Some (''Check Availability'', ''Service chosen, checking availability'')) b;
          b = addEdge (Str availabilityId) (Str confirmationId) ''preferred time available''
                (Some (''Time Available'', ''Preferred slot is available'')) b;
          b = addEdge (Str availabilityId) (Str alternativeTimesId) ''preferred time not available''
                (Some (''No Availability'', ''Preferred time unavailable, offering alternatives'')) b;
          b = addEdge (Str alternativeTimesId) (Str confirmationId) ''alternative time selected''
                (Some (''Alternative Chosen'', ''Customer selected alternative time'')) b;
          b = addEdge (Str confirmationId) (Str bookingCompleteId) ''appointment confirmed''
                (Some (''Confirmation Complete'', ''Customer confirmed the appointment'')) b;
          b = addEdge (Str bookingCompleteId) (Str completionId) ''booking process complete''
                (Some (''Process Complete'', ''Appointment successfully booked'')) b
      in build b)"

subsection \<open>Custom workflow\<close>

record workflow_args =
  required_data_points :: "string list option"
  decision_points :: "string list"
  global_fallbacks :: bool

text \<open>
  \<^verbatim>\<open>required_data_points.map((point, index) => [slug, 'string', point, index < 3])\<close>, with the
  index counted from \<open>i\<close>.
\<close>

fun data_point_vars :: "nat \<Rightarrow> string list \<Rightarrow> extract_var list" where
  "data_point_vars i [] = []"
| "data_point_vars i (point # points) =
     (replace_ws (toLowerCase point), ''string'', point, Some (i < 3)) # data_point_vars (Suc i) points"

text \<open>Step 3 of the builder: one decision node per decision point.\<close>

definition decision_step ::
    "string \<Rightarrow> js_object \<times> ModularPathwayBuilder \<Rightarrow> js_object \<times> ModularPathwayBuilder" where
  "decision_step decisionPoint s =
     (let (decisionNodes, b) = s;
          (decisionId, b) =
            add_new (''Decision Point: '' @ decisionPoint)
              (withCondition (decisionPoint @ '' decision required'')) b
      in (obj_set decisionPoint decisionId decisionNodes, b))"

text \<open>
  The loop that chains the decision points: \<open>i\<close> is the loop index, the list holds
  \<^verbatim>\<open>decision_points[i]\<close> and the points after it, and \<open>currentNodeId\<close> is the loop's variable
  of that name.
\<close>

fun chain_decisions ::
    "js_object \<Rightarrow> string \<Rightarrow> nat \<Rightarrow> string list \<Rightarrow> jsvalue \<Rightarrow> ModularPathwayBuilder
      \<Rightarrow> ModularPathwayBuilder" where
  "chain_decisions decisionNodes processorId i [] currentNodeId b = b"
| "chain_decisions decisionNodes processorId i (decisionPoint # rest) currentNodeId b =
     (let nextNodeId = (case rest of
                          [] \<Rightarrow> Str processorId
                        | next # _ \<Rightarrow> obj_get decisionNodes next);
          b = addEdge currentNodeId (obj_get decisionNodes decisionPoint)
                (decisionPoint @ '' decision needed'')
                (Some (''Decision '' @ show_nat (i + 1), ''Route to '' @ decisionPoint @ '' decision'')) b;
          b = addEdge (obj_get decisionNodes decisionPoint) nextNodeId
                (decisionPoint @ '' decision made'')
                (Some (''Decision Complete'', decisionPoint @ '' decision completed'')) b
      in chain_decisions decisionNodes processorId (i + 1) rest
           (obj_get decisionNodes decisionPoint) b)"

definition buildCustomWorkflowPathway :: "workflow_args \<Rightarrow> pathway" where
  "buildCustomWorkflowPathway args =
     (let b = new_ModularPathwayBuilder;
          (helpNodeId, b) = add_new ''Workflow Help Assistant'' (asGlobal ''help'') b;
          (entryId, b) =
            add_new ''Custom Workflow Entry''
              (\<lambda>n. withVariableExtraction
                 (case required_data_points args of
                    Some points \<Rightarrow> data_point_vars 0 points
                  | None \<Rightarrow>
                      [(''workflow_intent'', ''string'', ''Purpose of workflow interaction'', Some True),
                       (''customer_context'', ''string'', ''Customer context or background'', Some False)])
                 (asStart n)) b;
          (decisionNodes, b) = fold decision_step (decision_points args) ([], b);
          (processorId, b) = add_new ''Workflow Processor'' (\<lambda>n. n) b;
          b = (if global_fallbacks args
               then snd (add_new ''Workflow Fallback Handler'' (asGlobal ''fallback'') b)
               else b);
          (resultsId, b) = add_new ''Workflow Results'' (\<lambda>n. n) b;
          (completionId, b) = add_new ''Workflow Complete'' asEndCall b;
          b = (if decision_points args \<noteq> []
               then chain_decisions decisionNodes processorId 0 (decision_points args) (Str entryId) b
               else addEdge (Str entryId) (Str processorId) ''workflow ready for processing''
                      (Some (''Processing Route'', ''Route to workflow processor'')) b);
          b = addEdge (Str processorId) (Str resultsId) ''workflow processing complete''
                (Some (''Results Ready'', ''Workflow processing completed'')) b;
          b = addEdge (Str resultsId) (Str completionId) ''results delivered''
                (Some (''Workflow Complete'', ''Results delivered to customer'')) b
      in build b)"

section \<open>Auxiliary notions for the proofs\<close>

text \<open>The edges as pairs of their ends, in order.\<close>

definition edge_pairs :: "PathwayEdge list \<Rightarrow> (jsvalue \<times> jsvalue) list" where
  "edge_pairs es = map (\<lambda>e. (source e, target e)) es"

definition is_digit :: "char \<Rightarrow> bool" where
  "is_digit c = (let n = (of_char c :: nat) in 48 \<le> n \<and> n \<le> 57)"

text \<open>The value of a string of decimal digits.\<close>

definition read_nat :: "string \<Rightarrow> nat" where
  "read_nat s = foldl (\<lambda>a c. 10 * a + (of_char c - 48)) 0 s"

text \<open>An identifier that ends with an underscore and the counter value \<open>n\<close>.\<close>

definition numbered :: "nat \<Rightarrow> string \<Rightarrow> bool" where
  "numbered n s = (\<exists>p. s = p @ CHR ''_'' # show_nat n)"

text \<open>
  The builder \<open>b'\<close> results from \<open>b\<close> by appending the nodes \<open>ns\<close>, numbered by the counter,
  and one edge from the hub to each of them, in the same order.
\<close>

definition fanned_from :: "string \<Rightarrow> PathwayNode list \<Rightarrow> builder \<Rightarrow> builder \<Rightarrow> bool" where
  "fanned_from hubId ns b b' \<longleftrightarrow>
     b_nodes b' = b_nodes b @ ns \<and>
     edge_pairs (b_edges b') =
       edge_pairs (b_edges b) @ map (\<lambda>n. (Str hubId, Str (node_id n))) ns \<and>
     nodeCount b' = nodeCount b + length ns \<and>
     domain b' = domain b \<and>
     (\<forall>i < length ns. numbered (Suc (nodeCount b + i)) (node_id (ns ! i)) \<and>
        \<not> isStart (ns ! i) \<and> \<not> isGlobal (ns ! i))"

text \<open>The ids selected by the two filters of step 8 from the node list \<open>ns\<close>.\<close>

definition other_ids ::
    "string \<Rightarrow> string \<Rightarrow> string \<Rightarrow> (string \<times> string) list \<Rightarrow> PathwayNode list \<Rightarrow> string list" where
  "other_ids hubId resolutionId completionId conceptNodeIds ns =
     map node_id
       (filter (\<lambda>node. map_of conceptNodeIds (node_id node) = None)
          (filter (\<lambda>node. node_id node \<noteq> hubId \<and> node_id node \<noteq> resolutionId \<and>
                          node_id node \<noteq> completionId) ns))"

text \<open>The node that \<^verbatim>\<open>createDomainConceptNode\<close> builds for the concept \<open>c\<close> in the domain \<open>dmn\<close>.\<close>

definition concept_node :: "string \<Rightarrow> concept \<Rightarrow> PathwayNode \<Rightarrow> bool" where
  "concept_node dmn c n \<longleftrightarrow>
     node_type n = Default \<and>
     node_name n = capitalizeWords (underscores_to_spaces (c_type c)) @ '' Specialist'' \<and>
     extractVars n = Some (getDomainVariablesForConcept (c_type c) dmn)"

text \<open>The edges as triples of source, target and label, in order.\<close>

definition edge_triples :: "PathwayEdge list \<Rightarrow> (jsvalue \<times> jsvalue \<times> string) list" where
  "edge_triples es = map (\<lambda>e. (source e, target e, label e)) es"


text \<open>What the proofs about a concrete graph read off it: ids, node types and edges.\<close>

definition skeleton ::
    "pathway \<Rightarrow> (string \<times> node_type) list \<times> (jsvalue \<times> jsvalue \<times> string) list" where
  "skeleton g = (map (\<lambda>n. (node_id n, node_type n)) (nodes g), edge_triples (edges g))"

text \<open>
  A walk through the graph: every node of the list has an edge to the node after it.
\<close>

fun is_path :: "pathway \<Rightarrow> string list \<Rightarrow> bool" where
  "is_path g (a # b # rest) =
     ((Str a, Str b) \<in> set (edge_pairs (edges g)) \<and> is_path g (b # rest))"
| "is_path g [a] = True"
| "is_path g [] = True"

text \<open>The terminal nodes (type \<^verbatim>\<open>End Call\<close>) and the start nodes, in order.\<close>

definition end_nodes :: "pathway \<Rightarrow> PathwayNode list" where
  "end_nodes g = filter (\<lambda>n. node_type n = EndCall) (nodes g)"

definition start_nodes :: "pathway \<Rightarrow> PathwayNode list" where
  "start_nodes g = filter isStart (nodes g)"

text \<open>Ids and names of the nodes, in order.\<close>

definition node_names :: "pathway \<Rightarrow> (string \<times> string) list" where
  "node_names g = map (\<lambda>n. (node_id n, node_name n)) (nodes g)"

section \<open>Example inputs\<close>

text \<open>
  A health-insurance description that mentions a family, with one webhook integration; the
  same with the URL of the webhook missing; and a description without any concept keyword,
  with an empty options bag.
\<close>

definition family_args :: build_args where
  "family_args = \<lparr>args_name = ''Plans'',
     webhook_integrations =
       [\<lparr>wh_name = Some ''CRM'', wh_url = Some ''https://crm.example.com/hook'', wh_method = None\<rparr>],
     knowledge_bases = [], transfer_numbers = []\<rparr>"

definition family_graph :: "error + pathway" where
  "family_graph = buildFromDescription ''health insurance for my family'' family_args new_builder"



definition empty_args :: build_args where
  "empty_args = \<lparr>args_name = ''Pet line'', webhook_integrations = [], knowledge_bases = [],
     transfer_numbers = []\<rparr>"

definition degenerate_graph :: "error + pathway" where
  "degenerate_graph =
     buildFromDescription ''a pathway that greets callers politely'' empty_args new_builder"

text \<open>
  A customer-service request whose comma-separated service types are
  \<^verbatim>\<open>billing,__proto__\<close>.
\<close>

definition proto_service_args :: service_args where
  "proto_service_args = \<lparr>svc_company_name = ''Acme'', service_types = [''billing'', ''__proto__''],
     knowledge_base_content = None, escalation_number = None\<rparr>"

definition proto_service_graph :: pathway where
  "proto_service_graph = buildAdvancedCustomerServicePathway proto_service_args"

section \<open>Character classes on the bits of a character\<close>

text \<open>
  The same functions, computed on the eight bits of the character. These equations
  replace the arithmetic ones when a concrete string is evaluated.
\<close>

lemma lower_char_Char [code]:
  "lower_char (Char b0 b1 b2 b3 b4 b5 b6 b7) =
     (if \<not> b7 \<and> b6 \<and> \<not> b5 \<and> (b0 \<or> b1 \<or> b2 \<or> b3 \<or> b4) \<and>
         \<not> (b4 \<and> b3 \<and> (b2 \<or> (b1 \<and> b0)))
      then Char b0 b1 b2 b3 b4 True b6 b7
      else Char b0 b1 b2 b3 b4 b5 b6 b7)"
  by (cases b0; cases b1; cases b2; cases b3; cases b4; cases b5; cases b6; cases b7)
     (simp_all add: lower_char_def char_of_def bit_Suc_0_iff)

lemma upper_char_Char [code]:
  "upper_char (Char b0 b1 b2 b3 b4 b5 b6 b7) =
     (if \<not> b7 \<and> b6 \<and> b5 \<and> (b0 \<or> b1 \<or> b2 \<or> b3 \<or> b4) \<and>
         \<not> (b4 \<and> b3 \<and> (b2 \<or> (b1 \<and> b0)))
      then Char b0 b1 b2 b3 b4 False b6 b7
      else Char b0 b1 b2 b3 b4 b5 b6 b7)"
  by (cases b0; cases b1; cases b2; cases b3; cases b4; cases b5; cases b6; cases b7)
     (simp_all add: upper_char_def char_of_def bit_Suc_0_iff)

lemma is_space_Char [code]:
  "is_space (Char b0 b1 b2 b3 b4 b5 b6 b7) \<longleftrightarrow>
     (\<not> b7 \<and> \<not> b6 \<and> \<not> b5 \<and> \<not> b4 \<and> b3 \<and> (b0 \<or> b1 \<or> b2) \<and> \<not> (b2 \<and> b1)) \<or>
     (\<not> b6 \<and> b5 \<and> \<not> b4 \<and> \<not> b3 \<and> \<not> b2 \<and> \<not> b1 \<and> \<not> b0)"
  by (cases b0; cases b1; cases b2; cases b3; cases b4; cases b5; cases b6; cases b7)
     (simp_all add: is_space_def)

section \<open>Counters and identifiers\<close>

lemma of_char_digit_char: "d < 10 \<Longrightarrow> (of_char (digit_char d) :: nat) = 48 + d"
  by (simp add: digit_char_def)

lemma is_digit_digit_char: "d < 10 \<Longrightarrow> is_digit (digit_char d)"
  by (simp add: is_digit_def of_char_digit_char)

lemma show_nat_digits: "\<forall>c \<in> set (show_nat n). is_digit c"
proof (induction n rule: show_nat.induct)
  case (1 n)
  show ?case
  proof (cases "n < 10")
    case True
    then show ?thesis by (subst show_nat.simps) (simp add: is_digit_digit_char)
  next
    case False
    with 1 show ?thesis by (subst show_nat.simps) (simp add: is_digit_digit_char)
  qed
qed

lemma read_nat_snoc: "read_nat (s @ [c]) = 10 * read_nat s + (of_char c - 48)"
  by (simp add: read_nat_def)

lemma read_show_nat: "read_nat (show_nat n) = n"
proof (induction n rule: show_nat.induct)
  case (1 n)
  show ?case
  proof (cases "n < 10")
    case True
    then show ?thesis
      by (subst show_nat.simps) (simp add: read_nat_def of_char_digit_char)
  next
    case False
    with 1 have "read_nat (show_nat (n div 10)) = n div 10" by simp
    with False show ?thesis
      by (subst show_nat.simps) (simp add: read_nat_snoc of_char_digit_char)
  qed
qed

lemma show_nat_inj: "show_nat n = show_nat m \<Longrightarrow> n = m"
  by (metis read_show_nat)

lemma numbered_suffix:
  assumes "numbered n s"
  shows "rev (takeWhile is_digit (rev s)) = show_nat n"
proof -
  from assms obtain p where s: "s = p @ CHR ''_'' # show_nat n"
    by (auto simp: numbered_def)
  have nd: "\<not> is_digit CHR ''_''" by (simp add: is_digit_def)
  have r: "rev s = rev (show_nat n) @ CHR ''_'' # rev p" by (simp add: s)
  have "takeWhile is_digit (rev (show_nat n) @ CHR ''_'' # rev p) =
          rev (show_nat n) @ takeWhile is_digit (CHR ''_'' # rev p)"
    by (rule takeWhile_append2) (use show_nat_digits in simp)
  with nd r have "takeWhile is_digit (rev s) = rev (show_nat n)" by simp
  then show ?thesis by simp
qed

lemma numbered_unique: "numbered n s \<Longrightarrow> numbered m s \<Longrightarrow> n = m"
  using numbered_suffix show_nat_inj by metis

lemma numbered_base: "numbered n (CHR ''_'' # show_nat n)"
  unfolding numbered_def by (rule exI [of _ "[]"]) simp

lemma numbered_Cons: "numbered n s \<Longrightarrow> numbered n (c # s)"
  unfolding numbered_def by (metis append_Cons)

lemma numbered_append: "numbered n s \<Longrightarrow> numbered n (p @ s)"
  unfolding numbered_def by (metis append_assoc)

lemmas numbered_intros = numbered_base numbered_append numbered_Cons

lemma show_nat_small: "show_nat 1 = ''1''" "show_nat 2 = ''2''" "show_nat 3 = ''3''"
  by code_simp+

section \<open>Properties of the Concept Extractor\<close>

lemma str_includes_toLowerCase:
  assumes "str_includes d kw" and "toLowerCase kw = kw"
  shows "str_includes (toLowerCase d) kw"
proof -
  from assms(1) have "sublist (map lower_char kw) (map lower_char d)"
    unfolding str_includes_def by (rule map_mono_sublist)
  with assms(2) show ?thesis
    by (simp add: str_includes_def toLowerCase_def)
qed

lemma str_includes_trans:
  "str_includes d p \<Longrightarrow> str_includes p kw \<Longrightarrow> str_includes d kw"
  unfolding str_includes_def by (rule sublist_order.order_trans)

lemma containsAnyI:
  "kw \<in> set kws \<Longrightarrow> str_includes t (toLowerCase kw) \<Longrightarrow> containsAny t kws"
  by (auto simp: containsAny_def list_ex_iff)

lemma in_push_when: "y \<in> set (push_when c x xs) \<Longrightarrow> y = x \<or> y \<in> set xs"
  by (auto simp: push_when_def split: if_splits)

lemma health_insurance_concepts_priority:
  "c \<in> set (health_insurance_concepts t) \<Longrightarrow> 0 < priority c"
  unfolding health_insurance_concepts_def Let_def
  by (auto dest!: in_push_when
      simp: individual_plans_def family_coverage_def group_business_plans_def
        medicare_senior_plans_def special_medical_needs_def budget_plans_def premium_coverage_def)

text \<open>A stable sort moves the one element with the least key from the back to the front.\<close>

lemma sort_key_least_last:
  fixes f :: "'a \<Rightarrow> int"
  assumes "\<forall>c \<in> set cs. f u < f c"
  shows "sort_key f (cs @ [u]) = u # sort_key f cs"
  using assms by (induction cs) (auto simp: sort_key_def)

text \<open>
  Claim C6. If the description contains one of the urgency keywords \<^verbatim>\<open>urgent\<close>, \<^verbatim>\<open>emergency\<close>
  or \<^verbatim>\<open>asap\<close>, the concept list is sorted ascending by priority and its first element is
  the urgent-assistance concept, whatever the domain, whatever other keywords occur and
  wherever the keyword stands in the text.
\<close>

theorem urgency_first:
  assumes kw: "kw \<in> set [''urgent'', ''emergency'', ''asap'']"
      and inc: "str_includes description kw"
  shows "sorted (map priority (extractDomainSpecificConcepts description dmn)) \<and>
         extractDomainSpecificConcepts description dmn \<noteq> [] \<and>
         hd (extractDomainSpecificConcepts description dmn) = urgent_assistance"
proof -
  let ?t = "toLowerCase description"
  let ?cs = "if dmn = ''health insurance'' then health_insurance_concepts ?t else []"
  from kw have low: "toLowerCase kw = kw"
    by (auto simp: toLowerCase_def lower_char_def)
  from kw have mem: "kw \<in> set urgency_keywords"
    by (auto simp: urgency_keywords_def)
  have "str_includes ?t (toLowerCase kw)"
    using str_includes_toLowerCase [OF inc low] low by simp
  with mem have urgent: "containsAny ?t urgency_keywords"
    by (rule containsAnyI)
  have pos: "\<forall>c \<in> set ?cs. priority urgent_assistance < priority c"
    by (auto dest: health_insurance_concepts_priority simp: urgent_assistance_def)
  have eq: "extractDomainSpecificConcepts description dmn =
              sort_key priority (?cs @ [urgent_assistance])"
    using urgent by (simp add: extractDomainSpecificConcepts_def push_when_def Let_def)
  have first: "extractDomainSpecificConcepts description dmn =
                 urgent_assistance # sort_key priority ?cs"
    unfolding eq using pos by (rule sort_key_least_last)
  have "sorted (map priority (extractDomainSpecificConcepts description dmn))"
    unfolding eq by (rule sorted_sort_key)
  with first show ?thesis by simp
qed

theorem urgency_first_witness:
  "''asap'' \<in> set [''urgent'', ''emergency'', ''asap''] \<and>
   str_includes ''family and business health insurance, premium, asap'' ''asap'' \<and>
   map c_type (extractDomainSpecificConcepts
      ''family and business health insurance, premium, asap'' ''health insurance'') =
     [''urgent_assistance'', ''family_coverage'', ''group_business_plans'', ''premium_coverage''] \<and>
   hd (extractDomainSpecificConcepts
      ''family and business health insurance, premium, asap'' ''health insurance'') =
     urgent_assistance"
proof -
  have h1: "''asap'' \<in> set [''urgent'', ''emergency'', ''asap'']" by simp
  have h2: "str_includes ''family and business health insurance, premium, asap'' ''asap''"
    by code_simp
  have e: "map c_type (extractDomainSpecificConcepts
      ''family and business health insurance, premium, asap'' ''health insurance'') =
     [''urgent_assistance'', ''family_coverage'', ''group_business_plans'', ''premium_coverage'']"
    by code_simp
  from urgency_first [OF h1 h2, of "''health insurance''"] h1 h2 e show ?thesis by simp
qed


section \<open>The shape of the assembled graph\<close>

lemma edge_pairs_append [simp]: "edge_pairs (es @ fs) = edge_pairs es @ edge_pairs fs"
  by (simp add: edge_pairs_def)

lemma createConditionalEdge_fields [simp]:
  "b_nodes (createConditionalEdge s t l d b) = b_nodes b"
  "nodeCount (createConditionalEdge s t l d b) = nodeCount b"
  "domain (createConditionalEdge s t l d b) = domain b"
  "edge_pairs (b_edges (createConditionalEdge s t l d b)) = edge_pairs (b_edges b) @ [(Str s, Str t)]"
  by (simp_all add: createConditionalEdge_def Let_def edge_pairs_def)

lemma fanned_from_refl: "fanned_from hub [] b b"
  by (simp add: fanned_from_def)

lemma fanned_from_trans:
  assumes "fanned_from hub ns b b1" and "fanned_from hub ms b1 b2"
  shows "fanned_from hub (ns @ ms) b b2"
proof -
  have num: "numbered (Suc (nodeCount b + i)) (node_id ((ns @ ms) ! i)) \<and>
             \<not> isStart ((ns @ ms) ! i) \<and> \<not> isGlobal ((ns @ ms) ! i)"
    if i: "i < length (ns @ ms)" for i
  proof (cases "i < length ns")
    case True
    with assms(1) show ?thesis by (simp add: fanned_from_def nth_append)
  next
    case False
    with i have j: "i - length ns < length ms" by simp
    from False have e: "nodeCount b1 + (i - length ns) = nodeCount b + i"
      using assms(1) by (simp add: fanned_from_def)
    from assms(2) j have "numbered (Suc (nodeCount b1 + (i - length ns))) (node_id (ms ! (i - length ns))) \<and>
             \<not> isStart (ms ! (i - length ns)) \<and> \<not> isGlobal (ms ! (i - length ns))"
      unfolding fanned_from_def by blast
    with False e show ?thesis by (simp add: nth_append)
  qed
  from assms have "b_nodes b2 = b_nodes b @ ns @ ms"
    and "edge_pairs (b_edges b2) =
       edge_pairs (b_edges b) @ map (\<lambda>n. (Str hub, Str (node_id n))) (ns @ ms)"
    and "nodeCount b2 = nodeCount b + length (ns @ ms)"
    and "domain b2 = domain b"
    by (simp_all add: fanned_from_def)
  with num show ?thesis unfolding fanned_from_def by blast
qed

lemma fanned_from_single:
  assumes "numbered (Suc (nodeCount b)) (node_id n)" "\<not> isStart n" "\<not> isGlobal n"
  shows "fanned_from hub [n] b
           (createConditionalEdge hub (node_id n) l d
              (b\<lparr>nodeCount := nodeCount b + 1, b_nodes := b_nodes b @ [n]\<rparr>))"
  using assms by (simp add: fanned_from_def)

lemma concept_step_fanned:
  "\<exists>n b'. concept_step hub c (m, b) = (AList.update (c_type c) (node_id n) m, b') \<and>
     fanned_from hub [n] b b' \<and> concept_node (domain b) c n"
proof -
  let ?n = "(plain_node (c_type c @ ''_specialist_'' @ show_nat (nodeCount b + 1)) Default
               (capitalizeWords (underscores_to_spaces (c_type c)) @ '' Specialist''))
             \<lparr>node_condition := Some (''Must fully address '' @
                  underscores_to_spaces (c_type c) @ '' requirements''),
              extractVars := Some (getDomainVariablesForConcept (c_type c) (domain b))\<rparr>"
  let ?b' = "createConditionalEdge hub (node_id ?n) (c_condition c) (c_description c)
       (b\<lparr>nodeCount := nodeCount b + 1, b_nodes := b_nodes b @ [?n]\<rparr>)"
  have "concept_step hub c (m, b) = (AList.update (c_type c) (node_id ?n) m, ?b')"
    by (simp add: concept_step_def createDomainConceptNode_def Let_def plain_node_def)
  moreover have "fanned_from hub [?n] b ?b'"
    by (rule fanned_from_single) (simp_all add: plain_node_def numbered_intros)
  moreover have "concept_node (domain b) c ?n"
    by (simp add: plain_node_def concept_node_def)
  ultimately show ?thesis by blast
qed

lemma webhook_step_fanned:
  assumes "webhook_step hub wh b = Inr b'"
  shows "\<exists>n. fanned_from hub [n] b b' \<and> node_type n = Webhook \<and> webhookUrl n = wh_url wh"
proof -
  from assms obtain nm where nm: "wh_name wh = Some nm"
    by (auto simp: webhook_step_def createDomainWebhookNode_def split: option.splits)
  let ?n = "(plain_node (replace_ws (domain b) @ ''_'' @ toLowerCase (replace_ws nm) @ ''_'' @
                 show_nat (nodeCount b + 1)) Webhook (capitalizeWords (domain b) @ '' '' @ nm))
              \<lparr>webhookUrl := wh_url wh, webhookMethod := Some (or_else (wh_method wh) ''POST'')\<rparr>"
  from assms nm have b': "b' = createConditionalEdge hub (node_id ?n) (''needs '' @ toLowerCase nm)
       (''Route to '' @ nm @ '' for domain-specific processing'')
       (b\<lparr>nodeCount := nodeCount b + 1, b_nodes := b_nodes b @ [?n]\<rparr>)"
    by (simp add: webhook_step_def createDomainWebhookNode_def Let_def plain_node_def)
  have "fanned_from hub [?n] b b'"
    unfolding b' by (rule fanned_from_single) (simp_all add: plain_node_def numbered_intros)
  moreover have "node_type ?n = Webhook \<and> webhookUrl ?n = wh_url wh"
    by (simp add: plain_node_def)
  ultimately show ?thesis by blast
qed

lemma kb_step_fanned:
  assumes "kb_step hub k b = Inr b'"
  shows "\<exists>n. fanned_from hub [n] b b' \<and> node_type n = KnowledgeBase"
proof -
  from assms obtain nm where nm: "kb_name k = Some nm"
    by (auto simp: kb_step_def createDomainKnowledgeBaseNode_def split: option.splits)
  let ?n = "(plain_node (replace_ws (domain b) @ ''_'' @ toLowerCase (replace_ws nm) @ ''_'' @
                 show_nat (nodeCount b + 1)) KnowledgeBase (capitalizeWords (domain b) @ '' '' @ nm))
              \<lparr>kb := kb_content k\<rparr>"
  from assms nm have b': "b' = createConditionalEdge hub (node_id ?n)
       (''asks about '' @ joined_or (trigger_phrases k) (''questions about '' @ toLowerCase nm))
       (''Provide specialized information from '' @ nm)
       (b\<lparr>nodeCount := nodeCount b + 1, b_nodes := b_nodes b @ [?n]\<rparr>)"
    by (simp add: kb_step_def createDomainKnowledgeBaseNode_def Let_def plain_node_def)
  have "fanned_from hub [?n] b b'"
    unfolding b' by (rule fanned_from_single) (simp_all add: plain_node_def numbered_intros)
  moreover have "node_type ?n = KnowledgeBase"
    by (simp add: plain_node_def)
  ultimately show ?thesis by blast
qed

lemma transfer_step_fanned:
  assumes "transfer_step hub t b = Inr b'"
  shows "\<exists>n. fanned_from hub [n] b b' \<and> node_type n = TransferNode"
proof -
  from assms obtain nm where nm: "tr_name t = Some nm"
    by (auto simp: transfer_step_def createDomainTransferNode_def split: option.splits)
  let ?n = "(plain_node (replace_ws (domain b) @ ''_'' @ toLowerCase (replace_ws nm) @ ''_'' @
                 show_nat (nodeCount b + 1)) TransferNode (capitalizeWords (domain b) @ '' '' @ nm))
              \<lparr>transferNumber := tr_number t\<rparr>"
  from assms nm have b': "b' = createConditionalEdge hub (node_id ?n)
       (joined_or (tr_conditions t) (''needs '' @ toLowerCase nm))
       (''Transfer to '' @ nm @ '' for specialized assistance'')
       (b\<lparr>nodeCount := nodeCount b + 1, b_nodes := b_nodes b @ [?n]\<rparr>)"
    by (simp add: transfer_step_def createDomainTransferNode_def Let_def plain_node_def)
  have "fanned_from hub [?n] b b'"
    unfolding b' by (rule fanned_from_single) (simp_all add: plain_node_def numbered_intros)
  moreover have "node_type ?n = TransferNode"
    by (simp add: plain_node_def)
  ultimately show ?thesis by blast
qed

lemma webhook_step_succeeds: "wh_name wh \<noteq> None \<Longrightarrow> \<exists>b'. webhook_step hub wh b = Inr b'"
  by (auto simp: webhook_step_def createDomainWebhookNode_def Let_def)

lemma kb_step_succeeds: "kb_name k \<noteq> None \<Longrightarrow> \<exists>b'. kb_step hub k b = Inr b'"
  by (auto simp: kb_step_def createDomainKnowledgeBaseNode_def Let_def)

lemma transfer_step_succeeds: "tr_name t \<noteq> None \<Longrightarrow> \<exists>b'. transfer_step hub t b = Inr b'"
  by (auto simp: transfer_step_def createDomainTransferNode_def Let_def)

lemma for_each_fanned:
  assumes step: "\<And>x s s'. body x s = Inr s' \<Longrightarrow> \<exists>n. fanned_from hub [n] s s' \<and> R x n"
  shows "for_each body xs s = Inr s' \<Longrightarrow> \<exists>ns. fanned_from hub ns s s' \<and> list_all2 R xs ns"
proof (induction xs arbitrary: s)
  case Nil
  then show ?case by (auto intro: fanned_from_refl)
next
  case (Cons x xs)
  from Cons.prems obtain s1 where s1: "body x s = Inr s1" and rest: "for_each body xs s1 = Inr s'"
    by (auto split: sum.splits)
  from step [OF s1] obtain n where n: "fanned_from hub [n] s s1" "R x n" by blast
  from Cons.IH [OF rest] obtain ns where ns: "fanned_from hub ns s1 s'" "list_all2 R xs ns"
    by blast
  from fanned_from_trans [OF n(1) ns(1)] n(2) ns(2)
  have "fanned_from hub (n # ns) s s' \<and> list_all2 R (x # xs) (n # ns)" by simp
  then show ?case by blast
qed

lemma for_each_succeeds:
  assumes "\<And>x s. x \<in> set xs \<Longrightarrow> \<exists>s'. body x s = Inr s'"
  shows "\<exists>s'. for_each body xs s = Inr s'"
  using assms
proof (induction xs arbitrary: s)
  case Nil
  then show ?case by simp
next
  case (Cons x xs)
  from Cons.prems [of x s] obtain s1 where s1: "body x s = Inr s1" by auto
  from Cons.IH [of s1] Cons.prems obtain s' where "for_each body xs s1 = Inr s'" by auto
  with s1 show ?case by simp
qed

lemma for_each_fails:
  assumes "x \<in> set xs" and "\<And>s. body x s = Inl e" and "\<And>y s. \<exists>r. body y s = Inl e \<or> body y s = Inr r"
  shows "for_each body xs s = Inl e"
  using assms(1)
proof (induction xs arbitrary: s)
  case Nil
  then show ?case by simp
next
  case (Cons y ys)
  from assms(3) [of y s] assms(2) Cons show ?case by (auto split: sum.splits)
qed

lemma update_values: "snd ` set (AList.update k v m) \<subseteq> insert v (snd ` set m)"
  by (induction m) auto

lemma update_not_Nil: "AList.update k v m \<noteq> []"
  by (cases m) auto

lemma concept_fold_fanned:
  assumes "fold (concept_step hub) cs (m, b) = (m', b')"
  shows "\<exists>ns. fanned_from hub ns b b' \<and>
           list_all2 (concept_node (domain b)) cs ns \<and>
           snd ` set m' \<subseteq> snd ` set m \<union> node_id ` set ns \<and>
           (m \<noteq> [] \<or> cs \<noteq> [] \<longrightarrow> m' \<noteq> [])"
  using assms
proof (induction cs arbitrary: m b)
  case Nil
  then show ?case by (auto intro: fanned_from_refl)
next
  case (Cons c cs)
  from concept_step_fanned [of hub c m b] obtain n b1 where
    st: "concept_step hub c (m, b) = (AList.update (c_type c) (node_id n) m, b1)" and
    f1: "fanned_from hub [n] b b1" and
    r1: "concept_node (domain b) c n"
    by blast
  let ?m1 = "AList.update (c_type c) (node_id n) m"
  from Cons.prems st have "fold (concept_step hub) cs (?m1, b1) = (m', b')" by simp
  from Cons.IH [OF this] obtain ns where
    f2: "fanned_from hub ns b1 b'" and
    r2: "list_all2 (concept_node (domain b1)) cs ns" and
    v2: "snd ` set m' \<subseteq> snd ` set ?m1 \<union> node_id ` set ns" and
    e2: "?m1 \<noteq> [] \<or> cs \<noteq> [] \<longrightarrow> m' \<noteq> []"
    by blast
  from f1 have d: "domain b1 = domain b" by (simp add: fanned_from_def)
  have "fanned_from hub (n # ns) b b'"
    using fanned_from_trans [OF f1 f2] by simp
  moreover have "list_all2 (concept_node (domain b))
            (c # cs) (n # ns)"
    using r1 r2 d by simp
  moreover have "snd ` set m' \<subseteq> snd ` set m \<union> node_id ` set (n # ns)"
    using v2 update_values [of "c_type c" "node_id n" m] by auto
  moreover have "m' \<noteq> []"
    using e2 update_not_Nil [of "c_type c" "node_id n" m] by simp
  ultimately show ?case by blast
qed

lemma fold_createConditionalEdge [simp]:
  "edge_pairs (b_edges (fold (\<lambda>x. createConditionalEdge (f x) t (l x) (d x)) xs b)) =
     edge_pairs (b_edges b) @ map (\<lambda>x. (Str (f x), Str t)) xs"
  "b_nodes (fold (\<lambda>x. createConditionalEdge (f x) t (l x) (d x)) xs b) = b_nodes b"
  "nodeCount (fold (\<lambda>x. createConditionalEdge (f x) t (l x) (d x)) xs b) = nodeCount b"
  "domain (fold (\<lambda>x. createConditionalEdge (f x) t (l x) (d x)) xs b) = domain b"
  by (induction xs arbitrary: b) simp_all

lemma hub_created:
  assumes "createDomainSpecificHub cs b = (hub, b1)"
  shows "\<exists>h. b_nodes b1 = b_nodes b @ [h] \<and> node_id h = hub \<and> isStart h \<and> \<not> isGlobal h \<and>
           node_type h = Default \<and> numbered (Suc (nodeCount b)) hub \<and>
           nodeCount b1 = Suc (nodeCount b) \<and> b_edges b1 = b_edges b \<and> domain b1 = domain b"
  using assms
  by (auto simp: createDomainSpecificHub_def Let_def plain_node_def numbered_intros)

lemma resolution_created:
  assumes "createDomainResolutionNode b = (rid, b1)"
  shows "\<exists>r. b_nodes b1 = b_nodes b @ [r] \<and> node_id r = rid \<and> \<not> isStart r \<and> \<not> isGlobal r \<and>
           node_type r = Default \<and> numbered (Suc (nodeCount b)) rid \<and>
           nodeCount b1 = Suc (nodeCount b) \<and> b_edges b1 = b_edges b \<and> domain b1 = domain b"
  using assms
  by (auto simp: createDomainResolutionNode_def Let_def plain_node_def numbered_intros)

lemma completion_created:
  assumes "createDomainCompletionNode b = (cid, b1)"
  shows "\<exists>c. b_nodes b1 = b_nodes b @ [c] \<and> node_id c = cid \<and> \<not> isStart c \<and> \<not> isGlobal c \<and>
           node_type c = EndCall \<and> numbered (Suc (nodeCount b)) cid \<and>
           nodeCount b1 = Suc (nodeCount b) \<and> b_edges b1 = b_edges b \<and> domain b1 = domain b"
  using assms
  by (auto simp: createDomainCompletionNode_def Let_def plain_node_def numbered_intros)

lemma converge_shape:
  "\<exists>r c. nodes (converge hub m args b) = b_nodes b @ [r, c] \<and>
     node_type r = Default \<and> node_type c = EndCall \<and>
     \<not> isStart r \<and> \<not> isStart c \<and> \<not> isGlobal r \<and> \<not> isGlobal c \<and>
     numbered (Suc (nodeCount b)) (node_id r) \<and>
     numbered (Suc (Suc (nodeCount b))) (node_id c) \<and>
     edge_pairs (edges (converge hub m args b)) =
       edge_pairs (b_edges b) @ map (\<lambda>x. (Str (snd x), Str (node_id r))) m @
       (if webhook_integrations args \<noteq> [] \<or> knowledge_bases args \<noteq> [] \<or> transfer_numbers args \<noteq> []
        then map (\<lambda>i. (Str i, Str (node_id r)))
               (other_ids hub (node_id r) (node_id c) m (b_nodes b @ [r, c]))
        else []) @
       [(Str (node_id r), Str (node_id c)), (Str (node_id r), Str hub)]"
proof -
  obtain rid b1 where r: "createDomainResolutionNode b = (rid, b1)"
    by (cases "createDomainResolutionNode b")
  obtain cid b2 where c: "createDomainCompletionNode b1 = (cid, b2)"
    by (cases "createDomainCompletionNode b1")
  from resolution_created [OF r] obtain rn where
    rn1: "b_nodes b1 = b_nodes b @ [rn]" "nodeCount b1 = Suc (nodeCount b)" "b_edges b1 = b_edges b" and
    rn: "node_id rn = rid" "\<not> isStart rn" "\<not> isGlobal rn"
        "node_type rn = Default" "numbered (Suc (nodeCount b)) rid"
    by blast
  from completion_created [OF c] obtain cn where
    cn1: "b_nodes b2 = b_nodes b1 @ [cn]" "numbered (Suc (nodeCount b1)) cid" "b_edges b2 = b_edges b1" and
    cn: "node_id cn = cid" "\<not> isStart cn" "\<not> isGlobal cn" "node_type cn = EndCall"
    by blast
  have n2: "b_nodes b2 = b_nodes b @ [rn, cn]" and e2: "b_edges b2 = b_edges b"
    and num: "numbered (Suc (Suc (nodeCount b))) cid"
    using rn1 cn1 by simp_all
  have nodes: "nodes (converge hub m args b) = b_nodes b2"
    by (simp add: converge_def r c Let_def split_def)
  have edges: "edge_pairs (edges (converge hub m args b)) =
       edge_pairs (b_edges b2) @ map (\<lambda>x. (Str (snd x), Str rid)) m @
       (if webhook_integrations args \<noteq> [] \<or> knowledge_bases args \<noteq> [] \<or> transfer_numbers args \<noteq> []
        then map (\<lambda>i. (Str i, Str rid)) (other_ids hub rid cid m (b_nodes b2))
        else []) @
       [(Str rid, Str cid), (Str rid, Str hub)]"
    by (simp add: converge_def r c Let_def split_def other_ids_def)
  have "nodes (converge hub m args b) = b_nodes b @ [rn, cn] \<and>
     node_type rn = Default \<and> node_type cn = EndCall \<and>
     \<not> isStart rn \<and> \<not> isStart cn \<and> \<not> isGlobal rn \<and> \<not> isGlobal cn \<and>
     numbered (Suc (nodeCount b)) (node_id rn) \<and>
     numbered (Suc (Suc (nodeCount b))) (node_id cn) \<and>
     edge_pairs (edges (converge hub m args b)) =
       edge_pairs (b_edges b) @ map (\<lambda>x. (Str (snd x), Str (node_id rn))) m @
       (if webhook_integrations args \<noteq> [] \<or> knowledge_bases args \<noteq> [] \<or> transfer_numbers args \<noteq> []
        then map (\<lambda>i. (Str i, Str (node_id rn)))
               (other_ids hub (node_id rn) (node_id cn) m (b_nodes b @ [rn, cn]))
        else []) @
       [(Str (node_id rn), Str (node_id cn)), (Str (node_id rn), Str hub)]"
    unfolding nodes edges n2 e2 using rn cn num by simp
  then show ?thesis by blast
qed

lemma fan_out_shape:
  assumes "fan_out description args new_builder = Inr (hub, m, b)"
  obtains h cns wns kns tns where
    "b_nodes b = h # cns @ wns @ kns @ tns"
    "node_id h = hub" "isStart h" "\<not> isGlobal h" "node_type h = Default"
    "numbered (Suc 0) hub"
    "edge_pairs (b_edges b) = map (\<lambda>n. (Str hub, Str (node_id n))) (cns @ wns @ kns @ tns)"
    "nodeCount b = Suc (length (cns @ wns @ kns @ tns))"
    "domain b = extractPrimaryDomain description (args_name args)"
    "\<forall>i < length (cns @ wns @ kns @ tns).
       numbered (Suc (Suc i)) (node_id ((cns @ wns @ kns @ tns) ! i)) \<and>
       \<not> isStart ((cns @ wns @ kns @ tns) ! i) \<and> \<not> isGlobal ((cns @ wns @ kns @ tns) ! i)"
    "list_all2 (concept_node (extractPrimaryDomain description (args_name args)))
       (extractDomainSpecificConcepts description
          (extractPrimaryDomain description (args_name args))) cns"
    "list_all2 (\<lambda>wh n. node_type n = Webhook \<and> webhookUrl n = wh_url wh)
       (webhook_integrations args) wns"
    "list_all2 (\<lambda>k n. node_type n = KnowledgeBase) (knowledge_bases args) kns"
    "list_all2 (\<lambda>t n. node_type n = TransferNode) (transfer_numbers args) tns"
    "snd ` set m \<subseteq> node_id ` set cns"
    "extractDomainSpecificConcepts description
       (extractPrimaryDomain description (args_name args)) \<noteq> [] \<longrightarrow> m \<noteq> []"
proof -
  let ?D = "extractPrimaryDomain description (args_name args)"
  let ?cs = "extractDomainSpecificConcepts description ?D"
  let ?b0 = "new_builder\<lparr>domain := ?D, primaryPurpose := extractPrimaryPurpose description\<rparr>"
  have an: "analyse description (args_name args) new_builder = (?cs, ?b0)"
    by (simp add: analyse_def Let_def)
  obtain hub' b1 where hb: "createDomainSpecificHub ?cs ?b0 = (hub', b1)"
    by (cases "createDomainSpecificHub ?cs ?b0")
  obtain m1 b2 where cf: "fold (concept_step hub') ?cs ([], b1) = (m1, b2)"
    by (cases "fold (concept_step hub') ?cs ([], b1)")
  note fo = assms [unfolded fan_out_def an Let_def prod.case hb cf]
  obtain b3 where w: "for_each (webhook_step hub') (webhook_integrations args) b2 = Inr b3"
    using fo by (cases "for_each (webhook_step hub') (webhook_integrations args) b2") simp_all
  obtain b4 where k: "for_each (kb_step hub') (knowledge_bases args) b3 = Inr b4"
    using fo by (cases "for_each (kb_step hub') (knowledge_bases args) b3") (simp_all add: w)
  have t: "for_each (transfer_step hub') (transfer_numbers args) b4 = Inr b"
    and eq: "hub = hub'" "m = m1"
    using fo
    by (cases "for_each (transfer_step hub') (transfer_numbers args) b4"; simp add: w k)+
  from hub_created [OF hb] obtain h where
    h: "b_nodes b1 = [h]" "node_id h = hub'" "isStart h" "\<not> isGlobal h" "node_type h = Default"
       "numbered (Suc 0) hub'" "nodeCount b1 = Suc 0" "b_edges b1 = []" "domain b1 = ?D"
    by (auto simp: new_builder_def)
  from concept_fold_fanned [OF cf] obtain cns where
    c1: "fanned_from hub' cns b1 b2" and
    c2: "list_all2 (concept_node (domain b1)) ?cs cns" and
    c3: "snd ` set m1 \<subseteq> node_id ` set cns" and
    c4: "?cs \<noteq> [] \<longrightarrow> m1 \<noteq> []"
    by auto
  have "\<exists>ns. fanned_from hub' ns b2 b3 \<and>
          list_all2 (\<lambda>wh n. node_type n = Webhook \<and> webhookUrl n = wh_url wh)
            (webhook_integrations args) ns"
    by (rule for_each_fanned [where body = "webhook_step hub'", OF _ w])
       (rule webhook_step_fanned)
  then obtain wns where
    w1: "fanned_from hub' wns b2 b3" and
    w2: "list_all2 (\<lambda>wh n. node_type n = Webhook \<and> webhookUrl n = wh_url wh)
           (webhook_integrations args) wns"
    by blast
  have "\<exists>ns. fanned_from hub' ns b3 b4 \<and>
          list_all2 (\<lambda>k n. node_type n = KnowledgeBase) (knowledge_bases args) ns"
    by (rule for_each_fanned [where body = "kb_step hub'", OF _ k]) (rule kb_step_fanned)
  then obtain kns where
    k1: "fanned_from hub' kns b3 b4" and
    k2: "list_all2 (\<lambda>k n. node_type n = KnowledgeBase) (knowledge_bases args) kns"
    by blast
  have "\<exists>ns. fanned_from hub' ns b4 b \<and>
          list_all2 (\<lambda>t n. node_type n = TransferNode) (transfer_numbers args) ns"
    by (rule for_each_fanned [where body = "transfer_step hub'", OF _ t])
       (rule transfer_step_fanned)
  then obtain tns where
    t1: "fanned_from hub' tns b4 b" and
    t2: "list_all2 (\<lambda>t n. node_type n = TransferNode) (transfer_numbers args) tns"
    by blast
  have all: "fanned_from hub' (cns @ wns @ kns @ tns) b1 b"
    by (intro fanned_from_trans [OF c1] fanned_from_trans [OF w1] fanned_from_trans [OF k1] t1)
  have f1: "b_nodes b = h # cns @ wns @ kns @ tns"
    using all by (simp add: fanned_from_def h)
  have f2: "edge_pairs (b_edges b) =
              map (\<lambda>n. (Str hub', Str (node_id n))) (cns @ wns @ kns @ tns)"
    using all by (simp add: fanned_from_def h edge_pairs_def)
  have f3: "nodeCount b = Suc (length (cns @ wns @ kns @ tns))"
    using all by (simp add: fanned_from_def h)
  have f4: "domain b = ?D"
    using all by (simp add: fanned_from_def h)
  have f5: "\<forall>i < length (cns @ wns @ kns @ tns).
       numbered (Suc (Suc i)) (node_id ((cns @ wns @ kns @ tns) ! i)) \<and>
       \<not> isStart ((cns @ wns @ kns @ tns) ! i) \<and> \<not> isGlobal ((cns @ wns @ kns @ tns) ! i)"
    using all unfolding fanned_from_def h(7) by simp
  note c2' = c2 [unfolded h(9)]
  show thesis
    by (rule that [of h cns wns kns tns]; (unfold eq)?)
       (fact f1 h(2-6) f2 f3 f4 f5 c2' w2 k2 t2 c3 c4)+
qed

lemma build_shape:
  assumes "buildFromDescription description args new_builder = Inr g"
  obtains h fans cns wns kns tns r c m where
    "nodes g = h # fans @ [r, c]"
    "fans = cns @ wns @ kns @ tns"
    "isStart h \<and> \<not> isGlobal h \<and> node_type h = Default"
    "node_type r = Default \<and> \<not> isStart r \<and> \<not> isGlobal r"
    "node_type c = EndCall \<and> \<not> isStart c \<and> \<not> isGlobal c"
    "\<forall>n \<in> set fans. \<not> isStart n \<and> \<not> isGlobal n"
    "\<forall>i < length (nodes g). numbered (Suc i) (node_id (nodes g ! i))"
    "edge_pairs (edges g) =
       map (\<lambda>n. (Str (node_id h), Str (node_id n))) fans @
       map (\<lambda>x. (Str (snd x), Str (node_id r))) m @
       (if webhook_integrations args \<noteq> [] \<or> knowledge_bases args \<noteq> [] \<or> transfer_numbers args \<noteq> []
        then map (\<lambda>i. (Str i, Str (node_id r)))
               (other_ids (node_id h) (node_id r) (node_id c) m (nodes g))
        else []) @
       [(Str (node_id r), Str (node_id c)), (Str (node_id r), Str (node_id h))]"
    "list_all2 (concept_node (extractPrimaryDomain description (args_name args)))
       (extractDomainSpecificConcepts description
          (extractPrimaryDomain description (args_name args))) cns"
    "list_all2 (\<lambda>wh n. node_type n = Webhook \<and> webhookUrl n = wh_url wh)
       (webhook_integrations args) wns"
    "list_all2 (\<lambda>k n. node_type n = KnowledgeBase) (knowledge_bases args) kns"
    "list_all2 (\<lambda>t n. node_type n = TransferNode) (transfer_numbers args) tns"
    "snd ` set m \<subseteq> node_id ` set cns"
    "extractDomainSpecificConcepts description
       (extractPrimaryDomain description (args_name args)) \<noteq> [] \<longrightarrow> m \<noteq> []"
proof -
  from assms obtain hub m b where
    fo: "fan_out description args new_builder = Inr (hub, m, b)" and
    g: "g = converge hub m args b"
    by (auto simp: buildFromDescription_def split: sum.splits)
  from fo obtain h cns wns kns tns where
    s1: "b_nodes b = h # cns @ wns @ kns @ tns" and
    s2: "node_id h = hub" and
    s3: "isStart h" "\<not> isGlobal h" "node_type h = Default" and
    s4: "numbered (Suc 0) hub" and
    s5: "edge_pairs (b_edges b) = map (\<lambda>n. (Str hub, Str (node_id n))) (cns @ wns @ kns @ tns)" and
    s6: "nodeCount b = Suc (length (cns @ wns @ kns @ tns))" and
    s7: "\<forall>i < length (cns @ wns @ kns @ tns).
       numbered (Suc (Suc i)) (node_id ((cns @ wns @ kns @ tns) ! i)) \<and>
       \<not> isStart ((cns @ wns @ kns @ tns) ! i) \<and> \<not> isGlobal ((cns @ wns @ kns @ tns) ! i)" and
    s8: "list_all2 (concept_node (extractPrimaryDomain description (args_name args)))
       (extractDomainSpecificConcepts description
          (extractPrimaryDomain description (args_name args))) cns" and
    s9: "list_all2 (\<lambda>wh n. node_type n = Webhook \<and> webhookUrl n = wh_url wh)
       (webhook_integrations args) wns" and
    s10: "list_all2 (\<lambda>k n. node_type n = KnowledgeBase) (knowledge_bases args) kns" and
    s11: "list_all2 (\<lambda>t n. node_type n = TransferNode) (transfer_numbers args) tns" and
    s12: "snd ` set m \<subseteq> node_id ` set cns" and
    s13: "extractDomainSpecificConcepts description
       (extractPrimaryDomain description (args_name args)) \<noteq> [] \<longrightarrow> m \<noteq> []"
    by (rule fan_out_shape)
  define fans where "fans = cns @ wns @ kns @ tns"
  from converge_shape [of hub m args b] obtain r c where
    c1: "nodes (converge hub m args b) = b_nodes b @ [r, c]" and
    c2: "node_type r = Default" "\<not> isStart r" "\<not> isGlobal r" and
    c3: "node_type c = EndCall" "\<not> isStart c" "\<not> isGlobal c" and
    c4: "numbered (Suc (nodeCount b)) (node_id r)"
        "numbered (Suc (Suc (nodeCount b))) (node_id c)" and
    c5: "edge_pairs (edges (converge hub m args b)) =
       edge_pairs (b_edges b) @ map (\<lambda>x. (Str (snd x), Str (node_id r))) m @
       (if webhook_integrations args \<noteq> [] \<or> knowledge_bases args \<noteq> [] \<or> transfer_numbers args \<noteq> []
        then map (\<lambda>i. (Str i, Str (node_id r)))
               (other_ids hub (node_id r) (node_id c) m (b_nodes b @ [r, c]))
        else []) @
       [(Str (node_id r), Str (node_id c)), (Str (node_id r), Str hub)]"
    by blast
  have n: "nodes g = h # fans @ [r, c]"
    by (simp add: g c1 s1 fans_def)
  have e: "edge_pairs (edges g) =
       map (\<lambda>n. (Str (node_id h), Str (node_id n))) fans @
       map (\<lambda>x. (Str (snd x), Str (node_id r))) m @
       (if webhook_integrations args \<noteq> [] \<or> knowledge_bases args \<noteq> [] \<or> transfer_numbers args \<noteq> []
        then map (\<lambda>i. (Str i, Str (node_id r)))
               (other_ids (node_id h) (node_id r) (node_id c) m (nodes g))
        else []) @
       [(Str (node_id r), Str (node_id c)), (Str (node_id r), Str (node_id h))]"
    unfolding n unfolding g c5 s5 s2 s1 fans_def by simp
  have fl: "\<forall>n \<in> set fans. \<not> isStart n \<and> \<not> isGlobal n"
    using s7 [folded fans_def] by (auto simp: in_set_conv_nth)
  note s6' = s6 [folded fans_def] and s7' = s7 [folded fans_def]
  have num: "numbered (Suc i) (node_id (nodes g ! i))" if i: "i < length (nodes g)" for i
  proof -
    consider "i = 0" | "0 < i \<and> i \<le> length fans" | "i = Suc (length fans)"
      | "i = Suc (Suc (length fans))"
      using i by (simp add: n; arith)
    then show ?thesis
    proof cases
      case 1
      with s4 s2 show ?thesis by (simp add: n)
    next
      case 2
      then obtain j where j: "i = Suc j" "j < length fans" by (cases i) auto
      with s7' show ?thesis by (simp add: n nth_append)
    next
      case 3
      with c4(1) s6' show ?thesis by (simp add: n nth_append)
    next
      case 4
      with c4(2) s6' show ?thesis by (simp add: n nth_append)
    qed
  qed
  show thesis
  proof (rule that [of h fans r c cns wns kns tns m])
    show "nodes g = h # fans @ [r, c]" by (fact n)
    show "fans = cns @ wns @ kns @ tns" by (fact fans_def)
    show "isStart h \<and> \<not> isGlobal h \<and> node_type h = Default" using s3 by simp
    show "node_type r = Default \<and> \<not> isStart r \<and> \<not> isGlobal r" using c2 by simp
    show "node_type c = EndCall \<and> \<not> isStart c \<and> \<not> isGlobal c" using c3 by simp
    show "\<forall>n \<in> set fans. \<not> isStart n \<and> \<not> isGlobal n" by (fact fl)
    show "\<forall>i < length (nodes g). numbered (Suc i) (node_id (nodes g ! i))"
      using num by blast
  qed (fact e s8 s9 s10 s11 s12 s13)+
qed

lemma numbered_distinct:
  assumes "\<forall>i < length xs. numbered (Suc i) (xs ! i)"
  shows "distinct xs"
  unfolding distinct_conv_nth
proof (intro allI impI)
  fix i j
  assume ij: "i < length xs" "j < length xs" "i \<noteq> j"
  show "xs ! i \<noteq> xs ! j"
  proof
    assume "xs ! i = xs ! j"
    with assms ij have "numbered (Suc i) (xs ! i)" "numbered (Suc j) (xs ! i)" by auto
    then have "Suc i = Suc j" by (rule numbered_unique)
    with ij show False by simp
  qed
qed

lemma build_distinct:
  assumes "buildFromDescription description args new_builder = Inr g"
  shows "distinct (node_ids g)"
proof -
  from assms obtain h r c :: PathwayNode and fans cns wns kns tns :: "PathwayNode list"
    and m :: "(string \<times> string) list" where
    "\<forall>i < length (nodes g). numbered (Suc i) (node_id (nodes g ! i))"
    by (rule build_shape)
  then have "\<forall>i < length (node_ids g). numbered (Suc i) (node_ids g ! i)"
    by (simp add: node_ids_def)
  then show ?thesis by (rule numbered_distinct)
qed

section \<open>Facts about every assembled graph\<close>

lemma build_succeeds:
  assumes w: "\<forall>wh \<in> set (webhook_integrations args). wh_name wh \<noteq> None"
      and k: "\<forall>k \<in> set (knowledge_bases args). kb_name k \<noteq> None"
      and t: "\<forall>t \<in> set (transfer_numbers args). tr_name t \<noteq> None"
  shows "\<exists>g. buildFromDescription description args b0 = Inr g"
proof -
  obtain cs b1 where an: "analyse description (args_name args) b0 = (cs, b1)"
    by (cases "analyse description (args_name args) b0")
  obtain hub b2 where hb: "createDomainSpecificHub cs b1 = (hub, b2)"
    by (cases "createDomainSpecificHub cs b1")
  obtain m b3 where cf: "fold (concept_step hub) cs ([], b2) = (m, b3)"
    by (cases "fold (concept_step hub) cs ([], b2)")
  have "\<exists>s'. for_each (webhook_step hub) (webhook_integrations args) b3 = Inr s'"
    by (rule for_each_succeeds) (use w webhook_step_succeeds in blast)
  then obtain b4 where ws: "for_each (webhook_step hub) (webhook_integrations args) b3 = Inr b4" ..
  have "\<exists>s'. for_each (kb_step hub) (knowledge_bases args) b4 = Inr s'"
    by (rule for_each_succeeds) (use k kb_step_succeeds in blast)
  then obtain b5 where ks: "for_each (kb_step hub) (knowledge_bases args) b4 = Inr b5" ..
  have "\<exists>s'. for_each (transfer_step hub) (transfer_numbers args) b5 = Inr s'"
    by (rule for_each_succeeds) (use t transfer_step_succeeds in blast)
  then obtain b6 where ts: "for_each (transfer_step hub) (transfer_numbers args) b5 = Inr b6" ..
  have "fan_out description args b0 = Inr (hub, m, b6)"
    unfolding fan_out_def an Let_def prod.case hb cf by (simp add: ws ks ts)
  then show ?thesis by (simp add: buildFromDescription_def)
qed



lemma list_all2_left_ex:
  "list_all2 R xs ns \<Longrightarrow> x \<in> set xs \<Longrightarrow> \<exists>n \<in> set ns. R x n"
  by (induction rule: list_all2_induct) auto


lemma assembler_edges_closed:
  assumes "buildFromDescription description args new_builder = Inr g"
  shows "\<forall>e \<in> set (edges g). edge_closed g e"
proof -
  from assms obtain h r c :: PathwayNode and fans cns wns kns tns :: "PathwayNode list"
    and m :: "(string \<times> string) list" where
    n: "nodes g = h # fans @ [r, c]" and f: "fans = cns @ wns @ kns @ tns" and
    e: "edge_pairs (edges g) =
       map (\<lambda>n. (Str (node_id h), Str (node_id n))) fans @
       map (\<lambda>x. (Str (snd x), Str (node_id r))) m @
       (if webhook_integrations args \<noteq> [] \<or> knowledge_bases args \<noteq> [] \<or> transfer_numbers args \<noteq> []
        then map (\<lambda>i. (Str i, Str (node_id r)))
               (other_ids (node_id h) (node_id r) (node_id c) m (nodes g))
        else []) @
       [(Str (node_id r), Str (node_id c)), (Str (node_id r), Str (node_id h))]" and
    m: "snd ` set m \<subseteq> node_id ` set cns"
    by (rule build_shape)
  let ?S = "Str ` set (node_ids g)"
  have ids: "set (node_ids g) = insert (node_id h) (insert (node_id r) (insert (node_id c)
               (node_id ` set fans)))"
    by (auto simp: node_ids_def n)
  have o: "set (other_ids (node_id h) (node_id r) (node_id c) m (nodes g)) \<subseteq> set (node_ids g)"
    by (auto simp: other_ids_def node_ids_def)
  have m': "snd ` set m \<subseteq> set (node_ids g)"
    using m by (auto simp: ids f)
  have "\<forall>p \<in> set (edge_pairs (edges g)). fst p \<in> ?S \<and> snd p \<in> ?S"
    unfolding e using o m' by (auto simp: ids)
  then show ?thesis
    by (auto simp: edge_closed_def edge_pairs_def)
qed

lemma edge_rel_pairs: "edge_rel g = set (edge_pairs (edges g))"
  by (simp add: edge_rel_def edge_pairs_def)

section \<open>Evaluating the assembler on the example inputs\<close>

lemma family_domain:
  "extractPrimaryDomain ''health insurance for my family'' ''Plans'' = ''health insurance''"
  by code_simp

lemma family_concepts:
  "extractDomainSpecificConcepts ''health insurance for my family'' ''health insurance'' =
     [family_coverage]"
  by code_simp

lemma degenerate_domain:
  "extractPrimaryDomain ''a pathway that greets callers politely'' ''Pet line'' =
     ''specialized business''"
  by code_simp

lemma degenerate_concepts:
  "extractDomainSpecificConcepts ''a pathway that greets callers politely''
     ''specialized business'' = []"
  by code_simp

lemma eval_strings:
  "replace_ws ''health insurance'' = ''health_insurance''"
  "replace_ws ''specialized business'' = ''specialized_business''"
  "toLowerCase (replace_ws ''CRM'') = ''crm''"
  "toLowerCase ''CRM'' = ''crm''"
  by code_simp+

lemma show_nat_Suc:
  "show_nat (Suc 0) = ''1''" "show_nat (Suc (Suc 0)) = ''2''" "show_nat (Suc (Suc (Suc 0))) = ''3''"
  "show_nat (Suc (Suc (Suc (Suc 0)))) = ''4''" "show_nat (Suc (Suc (Suc (Suc (Suc 0))))) = ''5''"
  by code_simp+

lemmas assembler_defs =
  buildFromDescription_def fan_out_def analyse_def converge_def new_builder_def
  createDomainSpecificHub_def createDomainConceptNode_def createDomainWebhookNode_def
  createDomainKnowledgeBaseNode_def createDomainTransferNode_def createDomainResolutionNode_def
  createDomainCompletionNode_def createConditionalEdge_def concept_step_def webhook_step_def
  kb_step_def transfer_step_def plain_node_def Let_def

lemma family_graph_eval:
  "map_sum id skeleton family_graph = Inr
    ([(''health_insurance_hub_1'', Default), (''family_coverage_specialist_2'', Default),
      (''health_insurance_crm_3'', Webhook), (''health_insurance_resolution_4'', Default),
      (''health_insurance_completion_5'', EndCall)],
     [(Str ''health_insurance_hub_1'', Str ''family_coverage_specialist_2'',
         ''needs family health insurance coverage''),
      (Str ''health_insurance_hub_1'', Str ''health_insurance_crm_3'', ''needs crm''),
      (Str ''family_coverage_specialist_2'', Str ''health_insurance_resolution_4'',
         ''family_coverage assistance complete''),
      (Str ''family_coverage_specialist_2'', Str ''health_insurance_resolution_4'',
         ''service completed successfully''),
      (Str ''health_insurance_crm_3'', Str ''health_insurance_resolution_4'',
         ''service completed successfully''),
      (Str ''health_insurance_resolution_4'', Str ''health_insurance_completion_5'',
         ''satisfied with health insurance service''),
      (Str ''health_insurance_resolution_4'', Str ''health_insurance_hub_1'',
         ''additional health insurance needs'')])"
  by (simp add: family_graph_def family_args_def assembler_defs family_domain family_concepts
       family_coverage_def eval_strings show_nat_Suc skeleton_def edge_triples_def)

lemma degenerate_graph_eval:
  "map_sum id skeleton degenerate_graph = Inr
    ([(''specialized_business_hub_1'', Default), (''specialized_business_resolution_2'', Default),
      (''specialized_business_completion_3'', EndCall)],
     [(Str ''specialized_business_resolution_2'', Str ''specialized_business_completion_3'',
         ''satisfied with specialized business service''),
      (Str ''specialized_business_resolution_2'', Str ''specialized_business_hub_1'',
         ''additional specialized business needs'')])"
  by (simp add: degenerate_graph_def empty_args_def assembler_defs degenerate_domain
       degenerate_concepts eval_strings show_nat_Suc skeleton_def edge_triples_def)

text \<open>Reading node ids, edge ends and labels off the skeleton of a graph.\<close>

lemma skeleton_reads:
  assumes "map_sum id skeleton r = Inr (ns, ts)"
  shows "\<not> isl r" and "node_ids (projr r) = map fst ns"
    and "map node_type (nodes (projr r)) = map snd ns"
    and "edge_triples (edges (projr r)) = ts"
    and "edge_pairs (edges (projr r)) = map (\<lambda>t. (fst t, fst (snd t))) ts"
  using assms
  by (cases r; simp add: skeleton_def node_ids_def edge_triples_def edge_pairs_def comp_def; fastforce)+

lemma edges_between_triples:
  "map label (edges_between g a b) =
     map (\<lambda>t. snd (snd t))
       (filter (\<lambda>t. fst t = Str a \<and> fst (snd t) = Str b) (edge_triples (edges g)))"
  by (simp add: edges_between_def edge_triples_def filter_map comp_def)

section \<open>Properties of the Graph Assembler\<close>

text \<open>
  Claim C1 (fan-out completeness). The node count of the claim holds for every successful
  build (lemma \<open>assembler_node_count\<close>), but the second half does not: on the example with
  one concept and one webhook integration the graph has its five nodes, and the concept
  node has two completion edges into the resolution node, not one. The second comes from
  the loop over \<^verbatim>\<open>otherNodeIds\<close>, whose filter \<^verbatim>\<open>!conceptNodeIds.has(node.id)\<close> tests the node id
  against the keys of the map (concept types) and so never excludes a concept node.
\<close>

theorem concept_node_two_completion_edges:
  "\<not> isl family_graph \<and>
   node_ids (projr family_graph) =
     [''health_insurance_hub_1'', ''family_coverage_specialist_2'', ''health_insurance_crm_3'',
      ''health_insurance_resolution_4'', ''health_insurance_completion_5''] \<and>
   map label (edges_between (projr family_graph) ''family_coverage_specialist_2''
     ''health_insurance_resolution_4'') =
     [''family_coverage assistance complete'', ''service completed successfully'']"
  using skeleton_reads(1,2,4) [OF family_graph_eval]
  by (simp add: edges_between_triples)

text \<open>
  The graph built when nothing is detected and nothing is configured: three nodes and the
  two edges of the completion routing, both leaving the resolution node.
\<close>

lemma degenerate_shape:
  assumes "extractDomainSpecificConcepts description
             (extractPrimaryDomain description (args_name args)) = []"
      and "webhook_integrations args = []" and "knowledge_bases args = []"
      and "transfer_numbers args = []"
  shows "\<exists>g. buildFromDescription description args new_builder = Inr g \<and>
           map node_type (nodes g) = [Default, Default, EndCall] \<and>
           map isStart (nodes g) = [True, False, False] \<and>
           distinct (node_ids g) \<and>
           edge_pairs (edges g) =
             [(Str (node_ids g ! 1), Str (node_ids g ! 2)),
              (Str (node_ids g ! 1), Str (node_ids g ! 0))] \<and>
           (\<forall>e \<in> set (edges g). edge_closed g e)"
proof -
  from assms(2-4) obtain g where g: "buildFromDescription description args new_builder = Inr g"
    using build_succeeds [of args description new_builder] by auto
  from g obtain h r c :: PathwayNode and fans cns wns kns tns :: "PathwayNode list"
    and m :: "(string \<times> string) list" where
    n: "nodes g = h # fans @ [r, c]" and f: "fans = cns @ wns @ kns @ tns" and
    h: "isStart h \<and> \<not> isGlobal h \<and> node_type h = Default" and
    r: "node_type r = Default \<and> \<not> isStart r \<and> \<not> isGlobal r" and
    c: "node_type c = EndCall \<and> \<not> isStart c \<and> \<not> isGlobal c" and
    e: "edge_pairs (edges g) =
       map (\<lambda>n. (Str (node_id h), Str (node_id n))) fans @
       map (\<lambda>x. (Str (snd x), Str (node_id r))) m @
       (if webhook_integrations args \<noteq> [] \<or> knowledge_bases args \<noteq> [] \<or> transfer_numbers args \<noteq> []
        then map (\<lambda>i. (Str i, Str (node_id r)))
               (other_ids (node_id h) (node_id r) (node_id c) m (nodes g))
        else []) @
       [(Str (node_id r), Str (node_id c)), (Str (node_id r), Str (node_id h))]" and
    lc: "list_all2 (concept_node (extractPrimaryDomain description (args_name args)))
           (extractDomainSpecificConcepts description
              (extractPrimaryDomain description (args_name args))) cns" and
    lw: "list_all2 (\<lambda>wh n. node_type n = Webhook \<and> webhookUrl n = wh_url wh)
           (webhook_integrations args) wns" and
    lk: "list_all2 (\<lambda>k n. node_type n = KnowledgeBase) (knowledge_bases args) kns" and
    lt: "list_all2 (\<lambda>t n. node_type n = TransferNode) (transfer_numbers args) tns" and
    m: "snd ` set m \<subseteq> node_id ` set cns"
    by (rule build_shape)
  from lc lw lk lt assms have "fans = []" by (simp add: f)
  with m f have m0: "m = []" by (cases m) auto
  have n3: "nodes g = [h, r, c]" using n \<open>fans = []\<close> by simp
  have "edge_pairs (edges g) =
          [(Str (node_id r), Str (node_id c)), (Str (node_id r), Str (node_id h))]"
    unfolding e using assms(2-4) m0 \<open>fans = []\<close> by simp
  moreover have "distinct (node_ids g)" using g by (rule build_distinct)
  moreover have "\<forall>e \<in> set (edges g). edge_closed g e" using g by (rule assembler_edges_closed)
  ultimately show ?thesis
    using g h r c by (auto simp: n3 node_ids_def)
qed

text \<open>
  Claim C2 (degenerate case), as amended. When the description yields no concept and the
  options hold no webhook, knowledge-base or transfer entry, the assembler returns exactly
  three nodes (hub, resolution, terminal) with distinct ids, and exactly two edges:
  resolution to terminal and resolution back to hub. No edge leaves the hub. Every edge
  has a source and a target that are node ids of the graph.
\<close>

theorem degenerate_graph_shape:
  assumes "extractDomainSpecificConcepts description
             (extractPrimaryDomain description (args_name args)) = []"
      and "webhook_integrations args = []" and "knowledge_bases args = []"
      and "transfer_numbers args = []"
  shows "\<exists>g. buildFromDescription description args new_builder = Inr g \<and>
           map node_type (nodes g) = [Default, Default, EndCall] \<and>
           map isStart (nodes g) = [True, False, False] \<and>
           distinct (node_ids g) \<and>
           edge_pairs (edges g) =
             [(Str (node_ids g ! 1), Str (node_ids g ! 2)),
              (Str (node_ids g ! 1), Str (node_ids g ! 0))] \<and>
           (\<forall>e \<in> set (edges g). edge_closed g e)"
  using assms by (rule degenerate_shape)

theorem degenerate_graph_shape_witness:
  "extractDomainSpecificConcepts ''a pathway that greets callers politely''
     (extractPrimaryDomain ''a pathway that greets callers politely'' (args_name empty_args)) = [] \<and>
   webhook_integrations empty_args = [] \<and> knowledge_bases empty_args = [] \<and>
   transfer_numbers empty_args = [] \<and>
   (\<exists>g. buildFromDescription ''a pathway that greets callers politely'' empty_args new_builder =
          Inr g \<and>
        map node_type (nodes g) = [Default, Default, EndCall] \<and>
        map isStart (nodes g) = [True, False, False] \<and>
        distinct (node_ids g) \<and>
        edge_pairs (edges g) =
          [(Str (node_ids g ! 1), Str (node_ids g ! 2)),
           (Str (node_ids g ! 1), Str (node_ids g ! 0))] \<and>
        (\<forall>e \<in> set (edges g). edge_closed g e))"
proof -
  have h1: "extractDomainSpecificConcepts ''a pathway that greets callers politely''
     (extractPrimaryDomain ''a pathway that greets callers politely'' (args_name empty_args)) = []"
    by (simp add: empty_args_def degenerate_domain degenerate_concepts)
  have h2: "webhook_integrations empty_args = []" and h3: "knowledge_bases empty_args = []"
    and h4: "transfer_numbers empty_args = []"
    by (simp_all add: empty_args_def)
  show ?thesis
    by (intro conjI h1 h2 h3 h4 degenerate_graph_shape [OF h1 h2 h3 h4])
qed

text \<open>
  Claim C2 as stated fails: the degenerate graph is not connected hub to resolution to
  terminal, since it has no edge from the hub to the resolution node.
\<close>

theorem degenerate_no_hub_edge:
  "\<not> isl degenerate_graph \<and>
   node_ids (projr degenerate_graph) =
     [''specialized_business_hub_1'', ''specialized_business_resolution_2'',
      ''specialized_business_completion_3''] \<and>
   edges_between (projr degenerate_graph) ''specialized_business_hub_1''
     ''specialized_business_resolution_2'' = []"
proof -
  have "map label (edges_between (projr degenerate_graph) ''specialized_business_hub_1''
     ''specialized_business_resolution_2'') = []"
    using skeleton_reads(4) [OF degenerate_graph_eval] by (simp add: edges_between_triples)
  with skeleton_reads(1,2) [OF degenerate_graph_eval] show ?thesis by simp
qed

text \<open>
  Claim C3 (reachability), as amended. In every graph returned by the assembler that has at
  least one concept, webhook, knowledge-base or transfer node, there is exactly one start
  node, and every node that is not flagged \<^verbatim>\<open>isGlobal\<close> is reachable from it by following
  edges forward.
\<close>

theorem nonempty_graph_reachable:
  assumes build: "buildFromDescription description args new_builder = Inr g"
      and ne: "extractDomainSpecificConcepts description
                 (extractPrimaryDomain description (args_name args)) \<noteq> [] \<or>
               webhook_integrations args \<noteq> [] \<or> knowledge_bases args \<noteq> [] \<or>
               transfer_numbers args \<noteq> []"
  shows "length (filter isStart (nodes g)) = 1 \<and>
         (\<forall>n \<in> set (nodes g). \<not> isGlobal n \<longrightarrow>
            reachable g (node_id (hd (filter isStart (nodes g)))) (node_id n))"
proof -
  let ?cs = "extractDomainSpecificConcepts description
                 (extractPrimaryDomain description (args_name args))"
  from build obtain h r c :: PathwayNode and fans cns wns kns tns :: "PathwayNode list"
    and m :: "(string \<times> string) list" where
    n: "nodes g = h # fans @ [r, c]" and f: "fans = cns @ wns @ kns @ tns" and
    h: "isStart h \<and> \<not> isGlobal h \<and> node_type h = Default" and
    r: "node_type r = Default \<and> \<not> isStart r \<and> \<not> isGlobal r" and
    c: "node_type c = EndCall \<and> \<not> isStart c \<and> \<not> isGlobal c" and
    fl: "\<forall>n \<in> set fans. \<not> isStart n \<and> \<not> isGlobal n" and
    e: "edge_pairs (edges g) =
       map (\<lambda>n. (Str (node_id h), Str (node_id n))) fans @
       map (\<lambda>x. (Str (snd x), Str (node_id r))) m @
       (if webhook_integrations args \<noteq> [] \<or> knowledge_bases args \<noteq> [] \<or> transfer_numbers args \<noteq> []
        then map (\<lambda>i. (Str i, Str (node_id r)))
               (other_ids (node_id h) (node_id r) (node_id c) m (nodes g))
        else []) @
       [(Str (node_id r), Str (node_id c)), (Str (node_id r), Str (node_id h))]" and
    lc: "list_all2 (concept_node (extractPrimaryDomain description (args_name args))) ?cs cns" and
    lw: "list_all2 (\<lambda>wh n. node_type n = Webhook \<and> webhookUrl n = wh_url wh)
           (webhook_integrations args) wns" and
    lk: "list_all2 (\<lambda>k n. node_type n = KnowledgeBase) (knowledge_bases args) kns" and
    lt: "list_all2 (\<lambda>t n. node_type n = TransferNode) (transfer_numbers args) tns" and
    m: "snd ` set m \<subseteq> node_id ` set cns" and
    mne: "?cs \<noteq> [] \<longrightarrow> m \<noteq> []"
    by (rule build_shape)
  let ?R = "edge_rel g"
  let ?hub = "Str (node_id h)"
  have start: "filter isStart (nodes g) = [h]"
    using h r c fl by (simp add: n)
  have fan: "(?hub, Str (node_id x)) \<in> ?R" if "x \<in> set fans" for x
    using that unfolding edge_rel_pairs e by auto
  have dist: "distinct (node_ids g)"
    using build by (rule build_distinct)
  have fan_ids: "node_id x \<noteq> node_id h \<and> node_id x \<noteq> node_id r \<and> node_id x \<noteq> node_id c"
    if "x \<in> set fans" for x
  proof -
    from that have "node_id x \<in> node_id ` set fans" by simp
    with dist show ?thesis by (auto simp: node_ids_def n)
  qed
  have "\<exists>y \<in> set fans. (Str (node_id y), Str (node_id r)) \<in> ?R"
  proof (cases "m = []")
    case False
    then obtain p where p: "p \<in> set m" by (cases m) auto
    with m obtain y where y: "y \<in> set cns" "snd p = node_id y" by auto
    from p have "(Str (snd p), Str (node_id r)) \<in> ?R"
      unfolding edge_rel_pairs e by auto
    with y show ?thesis by (auto simp: f)
  next
    case True
    with mne have "?cs = []" by blast
    with ne have any: "webhook_integrations args \<noteq> [] \<or> knowledge_bases args \<noteq> [] \<or>
        transfer_numbers args \<noteq> []" by simp
    with lw lk lt have "wns \<noteq> [] \<or> kns \<noteq> [] \<or> tns \<noteq> []"
      by (auto simp: list_all2_Nil2)
    then have "fans \<noteq> []" by (simp add: f)
    then obtain y where y: "y \<in> set fans" by (cases fans) auto
    with fan_ids have "node_id y \<in> set (other_ids (node_id h) (node_id r) (node_id c) m (nodes g))"
      by (auto simp: other_ids_def True n)
    then have "(Str (node_id y), Str (node_id r)) \<in> ?R"
      unfolding edge_rel_pairs e using any by auto
    with y show ?thesis by blast
  qed
  then obtain y where y: "y \<in> set fans" "(Str (node_id y), Str (node_id r)) \<in> ?R" by blast
  have res: "(?hub, Str (node_id r)) \<in> ?R\<^sup>*"
    using fan [OF y(1)] y(2) by (meson r_into_rtrancl rtrancl_trans)
  have "(Str (node_id r), Str (node_id c)) \<in> ?R"
    unfolding edge_rel_pairs e by simp
  with res have compl: "(?hub, Str (node_id c)) \<in> ?R\<^sup>*"
    by (rule rtrancl_into_rtrancl)
  have "(?hub, Str (node_id x)) \<in> ?R\<^sup>*" if "x \<in> set (nodes g)" for x
    using that fan res compl by (auto simp: n)
  then show ?thesis
    by (simp add: start reachable_def)
qed

theorem nonempty_graph_reachable_witness:
  "family_graph = Inr (projr family_graph) \<and>
   webhook_integrations family_args \<noteq> [] \<and>
   node_ids (projr family_graph) =
     [''health_insurance_hub_1'', ''family_coverage_specialist_2'', ''health_insurance_crm_3'',
      ''health_insurance_resolution_4'', ''health_insurance_completion_5''] \<and>
   reachable (projr family_graph) ''health_insurance_hub_1'' ''health_insurance_crm_3'' \<and>
   reachable (projr family_graph) ''health_insurance_hub_1'' ''health_insurance_resolution_4'' \<and>
   reachable (projr family_graph) ''health_insurance_hub_1'' ''health_insurance_completion_5''"
proof -
  note sk = skeleton_reads [OF family_graph_eval]
  have ok: "family_graph = Inr (projr family_graph)"
    using sk(1) by simp
  then have b: "buildFromDescription ''health insurance for my family'' family_args new_builder =
      Inr (projr family_graph)"
    by (simp add: family_graph_def)
  have w: "webhook_integrations family_args \<noteq> []"
    by (simp add: family_args_def)
  then have ne: "extractDomainSpecificConcepts ''health insurance for my family''
                 (extractPrimaryDomain ''health insurance for my family'' (args_name family_args)) \<noteq> [] \<or>
               webhook_integrations family_args \<noteq> [] \<or> knowledge_bases family_args \<noteq> [] \<or>
               transfer_numbers family_args \<noteq> []"
    by simp
  from b obtain h r c :: PathwayNode and fans cns wns kns tns :: "PathwayNode list"
    and m :: "(string \<times> string) list" where
    n: "nodes (projr family_graph) = h # fans @ [r, c]" and
    h: "isStart h \<and> \<not> isGlobal h \<and> node_type h = Default" and
    fl: "\<forall>n \<in> set fans. \<not> isStart n \<and> \<not> isGlobal n" and
    r: "node_type r = Default \<and> \<not> isStart r \<and> \<not> isGlobal r" and
    c: "node_type c = EndCall \<and> \<not> isStart c \<and> \<not> isGlobal c"
    by (rule build_shape)
  from sk(2) n have mf: "map node_id fans =
      [''family_coverage_specialist_2'', ''health_insurance_crm_3'']"
    and ids0: "node_id h = ''health_insurance_hub_1''"
      "node_id r = ''health_insurance_resolution_4''"
      "node_id c = ''health_insurance_completion_5''"
    by (simp_all add: node_ids_def)
  from mf obtain f1 f2 where fans: "fans = [f1, f2]"
    and id2: "node_id f2 = ''health_insurance_crm_3''"
    by (auto simp: map_eq_Cons_conv)
  note ids = ids0 id2
  have start: "hd (filter isStart (nodes (projr family_graph))) = h"
    using h by (simp add: n)
  from nonempty_graph_reachable [OF b ne]
  have all: "\<forall>n \<in> set (nodes (projr family_graph)). \<not> isGlobal n \<longrightarrow>
      reachable (projr family_graph) ''health_insurance_hub_1'' (node_id n)"
    by (simp add: start ids)
  from fl have f2: "\<not> isGlobal f2" by (simp add: fans)
  from all f2 have "reachable (projr family_graph) ''health_insurance_hub_1'' (node_id f2)"
    by (simp add: n fans)
  moreover from all r have "reachable (projr family_graph) ''health_insurance_hub_1'' (node_id r)"
    by (simp add: n)
  moreover from all c have "reachable (projr family_graph) ''health_insurance_hub_1'' (node_id c)"
    by (simp add: n)
  ultimately show ?thesis
    using ok w sk(2) by (simp add: ids)
qed

text \<open>
  Claim C3 as stated fails on the degenerate graph: its resolution node is not global and
  is not reachable from the start node, the hub.
\<close>

theorem degenerate_resolution_unreachable:
  "\<not> isl degenerate_graph \<and>
   node_ids (projr degenerate_graph) =
     [''specialized_business_hub_1'', ''specialized_business_resolution_2'',
      ''specialized_business_completion_3''] \<and>
   map isStart (nodes (projr degenerate_graph)) = [True, False, False] \<and>
   map isGlobal (nodes (projr degenerate_graph)) = [False, False, False] \<and>
   \<not> reachable (projr degenerate_graph) ''specialized_business_hub_1''
        ''specialized_business_resolution_2''"
proof -
  note sk = skeleton_reads [OF degenerate_graph_eval]
  from sk(1) have ok: "degenerate_graph = Inr (projr degenerate_graph)" by simp
  then have b: "buildFromDescription ''a pathway that greets callers politely'' empty_args
      new_builder = Inr (projr degenerate_graph)"
    by (simp add: degenerate_graph_def)
  from b obtain h r c :: PathwayNode and fans cns wns kns tns :: "PathwayNode list"
    and m :: "(string \<times> string) list" where
    n: "nodes (projr degenerate_graph) = h # fans @ [r, c]" and
    h: "isStart h \<and> \<not> isGlobal h \<and> node_type h = Default" and
    r: "node_type r = Default \<and> \<not> isStart r \<and> \<not> isGlobal r" and
    c: "node_type c = EndCall \<and> \<not> isStart c \<and> \<not> isGlobal c"
    by (rule build_shape)
  from sk(2) n have "fans = []" by (simp add: node_ids_def)
  with n h r c have flags: "map isStart (nodes (projr degenerate_graph)) = [True, False, False]"
    "map isGlobal (nodes (projr degenerate_graph)) = [False, False, False]"
    by simp_all
  have "\<not> reachable (projr degenerate_graph) ''specialized_business_hub_1''
        ''specialized_business_resolution_2''"
    unfolding reachable_def edge_rel_pairs sk(5)
  proof
    assume "(Str ''specialized_business_hub_1'', Str ''specialized_business_resolution_2'')
        \<in> (set (map (\<lambda>t. (fst t, fst (snd t)))
          [(Str ''specialized_business_resolution_2'', Str ''specialized_business_completion_3'',
             ''satisfied with specialized business service''),
           (Str ''specialized_business_resolution_2'', Str ''specialized_business_hub_1'',
             ''additional specialized business needs'')]))\<^sup>*"
    then show False
      by (cases rule: converse_rtranclE) simp_all
  qed
  with sk(1,2) flags show ?thesis by simp
qed





lemma push_when_keeps: "x \<in> set xs \<Longrightarrow> x \<in> set (push_when c y xs)"
  by (simp add: push_when_def)

lemma push_when_adds: "c \<Longrightarrow> y \<in> set (push_when c y xs)"
  by (simp add: push_when_def)

lemma family_scenario_concepts:
  assumes "str_includes description ''family of four, spouse and children, affordable options''"
  shows "family_coverage \<in> set (extractDomainSpecificConcepts description ''health insurance'') \<and>
         budget_plans \<in> set (extractDomainSpecificConcepts description ''health insurance'')"
proof -
  let ?t = "toLowerCase description"
  have "str_includes ''family of four, spouse and children, affordable options'' ''family''"
    by code_simp
  with assms have "str_includes description ''family''" by (rule str_includes_trans)
  moreover have lf: "toLowerCase ''family'' = ''family''"
    by (simp add: toLowerCase_def lower_char_def)
  ultimately have "str_includes ?t ''family''" by (rule str_includes_toLowerCase)
  with lf have "str_includes ?t (toLowerCase ''family'')" by simp
  then have fam: "containsAny ?t [''family'', ''spouse'', ''children'', ''dependents'']"
    by (intro containsAnyI [of "''family''"]) simp_all
  have "str_includes ''family of four, spouse and children, affordable options'' ''affordable''"
    by code_simp
  with assms have "str_includes description ''affordable''" by (rule str_includes_trans)
  moreover have la: "toLowerCase ''affordable'' = ''affordable''"
    by (simp add: toLowerCase_def lower_char_def)
  ultimately have "str_includes ?t ''affordable''" by (rule str_includes_toLowerCase)
  with la have "str_includes ?t (toLowerCase ''affordable'')" by simp
  then have bud: "containsAny ?t [''budget'', ''affordable'', ''cost'', ''cheap'', ''low-cost'']"
    by (intro containsAnyI [of "''affordable''"]) simp_all
  have "family_coverage \<in> set (health_insurance_concepts ?t)"
    unfolding health_insurance_concepts_def Let_def
    by (intro push_when_keeps push_when_adds fam)
  moreover have "budget_plans \<in> set (health_insurance_concepts ?t)"
    unfolding health_insurance_concepts_def Let_def
    by (intro push_when_keeps push_when_adds bud)
  ultimately show ?thesis
    by (simp add: extractDomainSpecificConcepts_def Let_def push_when_def)
qed

section \<open>Domains without concept rules\<close>





section \<open>The family-coverage scenario\<close>

lemma family_specialist_name:
  "capitalizeWords (underscores_to_spaces ''family_coverage'') @ '' Specialist'' =
     ''Family Coverage Specialist''"
  by code_simp

lemma family_vars:
  "(''family_size'', ''integer'', ''Number of family members to cover'', Some True)
      \<in> set (getDomainVariablesForConcept ''family_coverage'' ''health insurance'') \<and>
   (''ages_of_dependents'', ''string'', ''Ages of spouse and children'', Some True)
      \<in> set (getDomainVariablesForConcept ''family_coverage'' ''health insurance'')"
  by code_simp

text \<open>
  Claim C8 (insurance family coverage), as amended. For every description containing the
  phrase \<^verbatim>\<open>family of four, spouse and children, affordable options\<close>, if the primary domain
  extracted from description and name is \<^verbatim>\<open>health insurance\<close>, the concept list includes the
  \<^verbatim>\<open>family_coverage\<close> and the \<^verbatim>\<open>budget_plans\<close> concept, and the node the assembler builds for
  the family-coverage concept has a variable-extraction list that includes \<^verbatim>\<open>family_size\<close>
  and \<^verbatim>\<open>ages_of_dependents\<close>.
\<close>

theorem family_scenario:
  assumes inc: "str_includes description ''family of four, spouse and children, affordable options''"
      and dom: "extractPrimaryDomain description (args_name args) = ''health insurance''"
      and build: "buildFromDescription description args new_builder = Inr g"
  shows "family_coverage \<in> set (extractDomainSpecificConcepts description
           (extractPrimaryDomain description (args_name args))) \<and>
         budget_plans \<in> set (extractDomainSpecificConcepts description
           (extractPrimaryDomain description (args_name args))) \<and>
         (\<exists>n \<in> set (nodes g). \<exists>vs.
            node_name n = ''Family Coverage Specialist'' \<and> extractVars n = Some vs \<and>
            (''family_size'', ''integer'', ''Number of family members to cover'', Some True) \<in> set vs \<and>
            (''ages_of_dependents'', ''string'', ''Ages of spouse and children'', Some True) \<in> set vs)"
proof -
  note cs = family_scenario_concepts [OF inc]
  from build obtain h r c :: PathwayNode and fans cns wns kns tns :: "PathwayNode list"
    and m :: "(string \<times> string) list" where
    n: "nodes g = h # fans @ [r, c]" and f: "fans = cns @ wns @ kns @ tns" and
    lc: "list_all2 (concept_node (extractPrimaryDomain description (args_name args)))
           (extractDomainSpecificConcepts description
              (extractPrimaryDomain description (args_name args))) cns"
    by (rule build_shape)
  from cs have "family_coverage \<in> set (extractDomainSpecificConcepts description
           (extractPrimaryDomain description (args_name args)))"
    by (simp add: dom)
  from list_all2_left_ex [OF lc this] obtain x where x: "x \<in> set cns"
    "concept_node (extractPrimaryDomain description (args_name args)) family_coverage x" ..
  have ct: "c_type family_coverage = ''family_coverage''" by (simp add: family_coverage_def)
  from x(2) have "node_name x =
      capitalizeWords (underscores_to_spaces (c_type family_coverage)) @ '' Specialist''"
    unfolding concept_node_def by blast
  then have nm: "node_name x = ''Family Coverage Specialist''"
    unfolding ct family_specialist_name .
  from x(2) have "extractVars x =
      Some (getDomainVariablesForConcept (c_type family_coverage)
        (extractPrimaryDomain description (args_name args)))"
    unfolding concept_node_def by blast
  then have ev: "extractVars x =
      Some (getDomainVariablesForConcept ''family_coverage'' ''health insurance'')"
    unfolding ct dom .
  have "(''family_size'', ''integer'', ''Number of family members to cover'', Some True)
          \<in> set (getDomainVariablesForConcept ''family_coverage'' ''health insurance'')"
       "(''ages_of_dependents'', ''string'', ''Ages of spouse and children'', Some True)
          \<in> set (getDomainVariablesForConcept ''family_coverage'' ''health insurance'')"
    by (rule family_vars [THEN conjunct1], rule family_vars [THEN conjunct2])
  with nm ev x(1) have "\<exists>n \<in> set (nodes g). \<exists>vs.
            node_name n = ''Family Coverage Specialist'' \<and> extractVars n = Some vs \<and>
            (''family_size'', ''integer'', ''Number of family members to cover'', Some True) \<in> set vs \<and>
            (''ages_of_dependents'', ''string'', ''Ages of spouse and children'', Some True) \<in> set vs"
    by (auto simp: n f)
  with cs show ?thesis by (simp add: dom)
qed

lemma scenario_domain:
  "extractPrimaryDomain
     ''health insurance for a family of four, spouse and children, affordable options''
     ''Plans'' = ''health insurance''"
  by code_simp

lemma scenario_includes:
  "str_includes ''health insurance for a family of four, spouse and children, affordable options''
     ''family of four, spouse and children, affordable options''"
  by code_simp

theorem family_scenario_witness:
  "family_coverage \<in> set (extractDomainSpecificConcepts
      ''health insurance for a family of four, spouse and children, affordable options''
      ''health insurance'') \<and>
   budget_plans \<in> set (extractDomainSpecificConcepts
      ''health insurance for a family of four, spouse and children, affordable options''
      ''health insurance'') \<and>
   (\<exists>g. buildFromDescription
          ''health insurance for a family of four, spouse and children, affordable options''
          family_args new_builder = Inr g \<and>
        (\<exists>n \<in> set (nodes g). \<exists>vs.
            node_name n = ''Family Coverage Specialist'' \<and> extractVars n = Some vs \<and>
            (''family_size'', ''integer'', ''Number of family members to cover'', Some True) \<in> set vs \<and>
            (''ages_of_dependents'', ''string'', ''Ages of spouse and children'', Some True) \<in> set vs))"
proof -
  let ?d = "''health insurance for a family of four, spouse and children, affordable options''"
  have dom: "extractPrimaryDomain ?d (args_name family_args) = ''health insurance''"
    by (simp add: family_args_def scenario_domain)
  have "\<exists>g. buildFromDescription ?d family_args new_builder = Inr g"
    by (rule build_succeeds) (simp_all add: family_args_def)
  then obtain g where g: "buildFromDescription ?d family_args new_builder = Inr g" ..
  from family_scenario [OF scenario_includes dom g] g show ?thesis
    unfolding dom by blast
qed

text \<open>
  Claim C8 as stated fails: a description that is just the phrase, under a name without
  insurance keywords, has the domain \<^verbatim>\<open>specialized business\<close>, and the Concept Extractor
  returns no concept for it.
\<close>

lemma phrase_domain:
  "extractPrimaryDomain ''family of four, spouse and children, affordable options''
     ''Family plan'' = ''specialized business''"
  by code_simp

lemma phrase_concepts:
  "extractDomainSpecificConcepts ''family of four, spouse and children, affordable options''
     ''specialized business'' = []"
  by code_simp

theorem family_phrase_without_domain:
  "str_includes ''family of four, spouse and children, affordable options''
     ''family of four, spouse and children, affordable options'' \<and>
   extractDomainSpecificConcepts ''family of four, spouse and children, affordable options''
     (extractPrimaryDomain ''family of four, spouse and children, affordable options''
        ''Family plan'') = []"
  by (simp add: phrase_domain phrase_concepts str_includes_def)

section \<open>The enterprise-sales template\<close>

lemma show_nat_Suc9:
  "show_nat (Suc (Suc (Suc (Suc (Suc (Suc 0)))))) = ''6''"
  "show_nat (Suc (Suc (Suc (Suc (Suc (Suc (Suc 0))))))) = ''7''"
  "show_nat (Suc (Suc (Suc (Suc (Suc (Suc (Suc (Suc 0)))))))) = ''8''"
  "show_nat (Suc (Suc (Suc (Suc (Suc (Suc (Suc (Suc (Suc 0))))))))) = ''9''"
  by code_simp+

lemmas template_defs =
  add_new_def createNode_def addNode_def addEdge_def build_def new_ModularPathwayBuilder_def
  new_ModularNodeBuilder_def plain_node_def asTransfer_def asKnowledgeBase_def asEndCall_def
  asStart_def asGlobal_def withCondition_def withVariableExtraction_def Let_def

lemma sales_nodes:
  "map (\<lambda>n. (node_id n, node_name n, node_type n, isStart n, isGlobal n))
     (nodes (buildEnterpriseSalesPathway args)) =
     [(''node_1'', ''Sales Help & Clarification'', Default, False, True),
      (''node_2'', company_name args @ '' Enterprise Sales'', Default, True, False),
      (''node_3'', ''Enterprise Lead Scoring'', Default, False, False),
      (''node_4'', ''Objection Resolution Specialist'', Default, False, True),
      (''node_5'', ''High-Value Enterprise Specialist'', Default, False, False),
      (''node_6'', ''Qualified Prospect Specialist'', Default, False, False),
      (''node_7'', ''Prospect Nurturing System'', Default, False, False),
      (''node_8'', ''Enterprise Sales Executive Transfer'', TransferNode, False, False),
      (''node_9'', ''Sales Process Complete'', EndCall, False, False)]"
  by (simp add: buildEnterpriseSalesPathway_def template_defs show_nat_Suc show_nat_Suc9)

lemma sales_edges:
  "edge_pairs (edges (buildEnterpriseSalesPathway args)) =
     [(Str ''node_2'', Str ''node_3''), (Str ''node_3'', Str ''node_5''),
      (Str ''node_3'', Str ''node_6''), (Str ''node_3'', Str ''node_7''),
      (Str ''node_5'', Str ''node_8''), (Str ''node_6'', Str ''node_8''),
      (Str ''node_8'', Str ''node_9''), (Str ''node_7'', Str ''node_9'')]"
  by (simp add: buildEnterpriseSalesPathway_def template_defs show_nat_Suc show_nat_Suc9
        edge_pairs_def)

lemma is_path_reachable:
  "is_path g (a # xs) \<Longrightarrow> reachable g a (last (a # xs))"
proof (induction xs arbitrary: a)
  case Nil
  show ?case by (simp add: reachable_def)
next
  case (Cons b xs)
  from Cons.prems have e: "(Str a, Str b) \<in> edge_rel g" and p: "is_path g (b # xs)"
    by (simp_all add: edge_rel_def edge_pairs_def)
  from Cons.IH [OF p] have "(Str b, Str (last (b # xs))) \<in> (edge_rel g)\<^sup>*"
    by (simp add: reachable_def)
  with e have "(Str a, Str (last (b # xs))) \<in> (edge_rel g)\<^sup>*"
    by (rule converse_rtrancl_into_rtrancl)
  then show ?case by (simp add: reachable_def)
qed

text \<open>
  Claim C10 (sales template). For every input, the graph of the enterprise-sales template
  has nine nodes with distinct ids, exactly one of them of type \<^verbatim>\<open>End Call\<close>, the node
  \<^verbatim>\<open>node_9\<close>, and exactly one start node, \<^verbatim>\<open>node_2\<close>. The high-value path leads from the start
  node through the lead-scoring node \<^verbatim>\<open>node_3\<close>, the high-value specialist \<^verbatim>\<open>node_5\<close> and the
  transfer node \<^verbatim>\<open>node_8\<close> to the terminal node; the nurture path leads from the start node
  through the lead-scoring node and the nurturing node \<^verbatim>\<open>node_7\<close> to the same terminal node.
\<close>

theorem sales_paths_reach_single_terminal:
  "map node_id (end_nodes (buildEnterpriseSalesPathway args)) = [''node_9''] \<and>
   map node_id (start_nodes (buildEnterpriseSalesPathway args)) = [''node_2''] \<and>
   distinct (node_ids (buildEnterpriseSalesPathway args)) \<and>
   node_names (buildEnterpriseSalesPathway args) =
     [(''node_1'', ''Sales Help & Clarification''),
      (''node_2'', company_name args @ '' Enterprise Sales''),
      (''node_3'', ''Enterprise Lead Scoring''),
      (''node_4'', ''Objection Resolution Specialist''),
      (''node_5'', ''High-Value Enterprise Specialist''),
      (''node_6'', ''Qualified Prospect Specialist''),
      (''node_7'', ''Prospect Nurturing System''),
      (''node_8'', ''Enterprise Sales Executive Transfer''),
      (''node_9'', ''Sales Process Complete'')] \<and>
   is_path (buildEnterpriseSalesPathway args)
     [''node_2'', ''node_3'', ''node_5'', ''node_8'', ''node_9''] \<and>
   is_path (buildEnterpriseSalesPathway args) [''node_2'', ''node_3'', ''node_7'', ''node_9''] \<and>
   reachable (buildEnterpriseSalesPathway args) ''node_2'' ''node_9''"
proof -
  let ?g = "buildEnterpriseSalesPathway args"
  let ?ns = "nodes ?g"
  note ns = sales_nodes [of args]
  have ids: "map node_id ?ns =
      [''node_1'', ''node_2'', ''node_3'', ''node_4'', ''node_5'', ''node_6'', ''node_7'',
       ''node_8'', ''node_9'']"
    using arg_cong [OF ns, of "map fst"] by (simp add: comp_def)
  have names: "node_names ?g =
     [(''node_1'', ''Sales Help & Clarification''),
      (''node_2'', company_name args @ '' Enterprise Sales''),
      (''node_3'', ''Enterprise Lead Scoring''),
      (''node_4'', ''Objection Resolution Specialist''),
      (''node_5'', ''High-Value Enterprise Specialist''),
      (''node_6'', ''Qualified Prospect Specialist''),
      (''node_7'', ''Prospect Nurturing System''),
      (''node_8'', ''Enterprise Sales Executive Transfer''),
      (''node_9'', ''Sales Process Complete'')]"
    using arg_cong [OF ns, of "map (\<lambda>t. (fst t, fst (snd t)))"]
    by (simp add: comp_def node_names_def)
  have "map (\<lambda>t. fst t) (filter (\<lambda>t. fst (snd (snd t)) = EndCall)
          (map (\<lambda>n. (node_id n, node_name n, node_type n, isStart n, isGlobal n)) ?ns)) =
        [''node_9'']"
    unfolding ns by simp
  then have ends: "map node_id (end_nodes ?g) = [''node_9'']"
    by (simp add: end_nodes_def filter_map comp_def)
  have "map (\<lambda>t. fst t) (filter (\<lambda>t. fst (snd (snd (snd t))))
          (map (\<lambda>n. (node_id n, node_name n, node_type n, isStart n, isGlobal n)) ?ns)) =
        [''node_2'']"
    unfolding ns by simp
  then have starts: "map node_id (start_nodes ?g) = [''node_2'']"
    by (simp add: start_nodes_def filter_map comp_def)
  have dist: "distinct (node_ids ?g)"
    unfolding node_ids_def ids by simp
  have p1: "is_path ?g [''node_2'', ''node_3'', ''node_5'', ''node_8'', ''node_9'']"
    by (simp add: sales_edges)
  have p2: "is_path ?g [''node_2'', ''node_3'', ''node_7'', ''node_9'']"
    by (simp add: sales_edges)
  from is_path_reachable [OF p2] have r: "reachable ?g ''node_2'' ''node_9''"
    by simp
  from ends starts dist names p1 p2 r show ?thesis
    by (intro conjI)
qed

section \<open>Well-formedness of the template graphs\<close>

lemma proto_service_nodes:
  "node_ids proto_service_graph =
     [''node_1'', ''node_2'', ''node_3'', ''node_4'', ''node_5'', ''node_6'', ''node_7'', ''node_8'']"
  by (simp add: proto_service_graph_def proto_service_args_def
        buildAdvancedCustomerServicePathway_def specialist_step_def obj_set_def obj_get_def
        template_defs show_nat_Suc show_nat_Suc9 node_ids_def)

lemma proto_service_edges:
  "edge_pairs (edges proto_service_graph) =
     [(Str ''node_2'', Str ''node_3''), (Str ''node_3'', Str ''node_4''),
      (Str ''node_3'', ObjectPrototype), (Str ''node_3'', Str ''node_6''),
      (Str ''node_4'', Str ''node_7''), (ObjectPrototype, Str ''node_7''),
      (Str ''node_6'', Str ''node_7''), (Str ''node_7'', Str ''node_8'')]"
  by (simp add: proto_service_graph_def proto_service_args_def
        buildAdvancedCustomerServicePathway_def specialist_step_def obj_set_def obj_get_def
        template_defs show_nat_Suc show_nat_Suc9 edge_pairs_def)

lemma edges_closed_pairs:
  "list_all (edge_closed g) (edges g) =
     list_all (\<lambda>p. fst p \<in> Str ` set (node_ids g) \<and> snd p \<in> Str ` set (node_ids g))
       (edge_pairs (edges g))"
  by (simp add: edge_pairs_def edge_closed_def list_all_iff)

lemma appointment_nodes:
  "node_ids (buildIntelligentAppointmentSystem args) =
     [''node_1'', ''node_2'', ''node_3'', ''node_4'', ''node_5'', ''node_6'', ''node_7'', ''node_8'']"
  by (simp add: buildIntelligentAppointmentSystem_def template_defs show_nat_Suc show_nat_Suc9
        node_ids_def)

lemma appointment_edges:
  "edge_pairs (edges (buildIntelligentAppointmentSystem args)) =
     [(Str ''node_2'', Str ''node_3''), (Str ''node_3'', Str ''node_4''),
      (Str ''node_4'', Str ''node_5''), (Str ''node_4'', Str ''node_7''),
      (Str ''node_7'', Str ''node_5''), (Str ''node_5'', Str ''node_6''),
      (Str ''node_6'', Str ''node_8'')]"
  by (simp add: buildIntelligentAppointmentSystem_def template_defs show_nat_Suc show_nat_Suc9
        edge_pairs_def)

text \<open>
  The sales template and the appointment template take no list from their input, and
  their graphs are well formed for every input.
\<close>

lemma sales_well_formed:
  "list_all (edge_closed (buildEnterpriseSalesPathway args))
     (edges (buildEnterpriseSalesPathway args)) \<and>
   distinct (node_ids (buildEnterpriseSalesPathway args))"
proof -
  have ids: "node_ids (buildEnterpriseSalesPathway args) =
      [''node_1'', ''node_2'', ''node_3'', ''node_4'', ''node_5'', ''node_6'', ''node_7'',
       ''node_8'', ''node_9'']"
    using arg_cong [OF sales_nodes [of args], of "map fst"] by (simp add: comp_def node_ids_def)
  show ?thesis
    unfolding edges_closed_pairs sales_edges ids by simp
qed

lemma appointment_well_formed:
  "list_all (edge_closed (buildIntelligentAppointmentSystem args))
     (edges (buildIntelligentAppointmentSystem args)) \<and>
   distinct (node_ids (buildIntelligentAppointmentSystem args))"
  unfolding edges_closed_pairs appointment_edges appointment_nodes by simp

text \<open>
  Claim C4 (well-formed graphs). The graphs of the assembler are well formed (lemmas
  \<open>assembler_edges_closed\<close> and \<open>build_distinct\<close>), and so are those of the sales and the
  appointment template, but not every graph of the customer-service template. For the
  service types \<^verbatim>\<open>billing,__proto__\<close> the graph has eight nodes with distinct ids and eight
  edges, and two of the edges have an end that is no node id: the target of the third and
  the source of the sixth are \<^verbatim>\<open>Object.prototype\<close>, which is what \<^verbatim>\<open>specialistNodes[serviceType]\<close>
  reads for the key \<^verbatim>\<open>__proto__\<close>. The node built for that service type, \<^verbatim>\<open>node_5\<close>, has no
  edge at all.
\<close>

theorem proto_service_type_dangling_edges:
  "node_ids proto_service_graph =
     [''node_1'', ''node_2'', ''node_3'', ''node_4'', ''node_5'', ''node_6'', ''node_7'', ''node_8''] \<and>
   edge_pairs (edges proto_service_graph) =
     [(Str ''node_2'', Str ''node_3''), (Str ''node_3'', Str ''node_4''),
      (Str ''node_3'', ObjectPrototype), (Str ''node_3'', Str ''node_6''),
      (Str ''node_4'', Str ''node_7''), (ObjectPrototype, Str ''node_7''),
      (Str ''node_6'', Str ''node_7''), (Str ''node_7'', Str ''node_8'')] \<and>
   \<not> list_all (edge_closed proto_service_graph) (edges proto_service_graph)"
  unfolding edges_closed_pairs proto_service_edges proto_service_nodes by auto

end
